theory Spec2Isabelle
  imports Complex_Main "HOL-Library.Sublist"
begin

section \<open>The actor of neurocuber (python/actor.py)\<close>

text \<open>
  The theory embeds \<^verbatim>\<open>python/actor.py\<close>: the class \<^verbatim>\<open>Actor\<close> (construction, the
  episode loop, \<^verbatim>\<open>play_episode\<close>, \<^verbatim>\<open>_compute_v\<close>) and the role lookup
  \<^verbatim>\<open>get_actor_info\<close> of the launcher. Python exceptions are values of type \<open>error\<close>;
  a function that can raise returns \<open>error + 'a\<close> with \<open>Inl\<close> for the exception.
\<close>

subsection \<open>Exceptions\<close>

datatype error =
    ZeroDivisionError
  | ValueError
  | OverflowError
  | IndexError
  | CouldNotFindActorInfo int

subsection \<open>Role lookup of the launcher\<close>

text \<open>
  \<^verbatim>\<open>
  def get_actor_info(idx):
      i = 0
      for actor_info in actor_cfg['actors']:
          i += actor_info['n']
          if idx < i:
              return actor_info
      raise Exception("could not find actor info for %d" % idx)
  \<close>
  An entry of \<^verbatim>\<open>actor_cfg['actors']\<close> is a record of the keys the file reads. The counts
  are Python integers read from JSON, so they are of type \<open>int\<close>.
\<close>

record solver_info =
  max_conflicts :: int
  sat_restart_max :: int

record actor_info =
  ai_n :: int
  ai_cubers :: "string list"
  ai_branchers :: "string list"
  ai_dimacs_dir :: string
  ai_train :: bool
  ai_solver :: solver_info

fun get_actor_info_loop :: "int \<Rightarrow> int \<Rightarrow> actor_info list \<Rightarrow> error + actor_info" where
  "get_actor_info_loop idx i [] = Inl (CouldNotFindActorInfo idx)"
| "get_actor_info_loop idx i (actor_info # rest) =
     (let i' = i + ai_n actor_info
      in if idx < i' then Inr actor_info else get_actor_info_loop idx i' rest)"

definition get_actor_info :: "actor_info list \<Rightarrow> int \<Rightarrow> error + actor_info" where
  "get_actor_info actors idx = get_actor_info_loop idx 0 actors"

text \<open>The cumulative count of the first \<open>k\<close> roles.\<close>

definition cumulative :: "actor_info list \<Rightarrow> nat \<Rightarrow> int" where
  "cumulative actors k = sum_list (map ai_n (take k actors))"

subsection \<open>Literals and the minimal trail\<close>

text \<open>
  Modelled from the spec: the literal type of \<^verbatim>\<open>sat_util\<close> is not in this file. A literal
  is a signed reference to a variable; \<^verbatim>\<open>lit.var()\<close> is its variable and
  \<^verbatim>\<open>var.idx()\<close> the variable's integer id. Python's \<^verbatim>\<open>lit in core\<close> compares with
  \<^verbatim>\<open>==\<close>, which is equality of the datatype here. The selectors \<open>lit_var\<close> and
  \<open>var_idx\<close> stand for the methods \<^verbatim>\<open>var()\<close> and \<^verbatim>\<open>idx()\<close>.
\<close>

datatype var = Var (var_idx: nat)

datatype lit = Lit (lit_var: var) (lit_sign: bool)

text \<open>
  \<^verbatim>\<open>min_trail = [lit for lit in trail if lit in core]\<close>
\<close>

definition min_trail :: "lit list \<Rightarrow> lit list \<Rightarrow> lit list" where
  "min_trail trail core = [lit \<leftarrow> trail. lit \<in> set core]"

subsection \<open>The collaborators of the actor\<close>

text \<open>
  The solver, the search procedure, the parser, the inference connection and the policy
  factories are imported by \<^verbatim>\<open>actor.py\<close> from other modules. They are parameters of the
  model, collected in a record of functions: \<open>'sp\<close> is the type of parsed problems,
  \<open>'s\<close> the state of a solver object, \<open>'w\<close> the type of parameter blobs and \<open>'lc\<close> the
  type of the constraint-index mapping. A solver object is mutable, so a call of
  \<^verbatim>\<open>s.to_tf_query(assumptions=...)\<close> returns the query together with the solver's next
  state. The search procedure sees the inference connection through the two policies, so
  \<open>play_asat\<close> takes the weights that are loaded when it runs.

  The arithmetic of Python floats is a parameter as well: \<open>'f\<close> is the type of floats,
  \<open>py_truediv\<close> the true division \<^verbatim>\<open>n / x\<close> of an integer by a number of the
  configuration, \<open>math_pow\<close> the function \<^verbatim>\<open>math.pow\<close> and \<open>py_mul\<close> the product
  \<^verbatim>\<open>x * y\<close> of two floats. The division and the power can raise
  (\<^verbatim>\<open>ZeroDivisionError\<close>, \<^verbatim>\<open>ValueError\<close>, \<^verbatim>\<open>OverflowError\<close>); the product of two
  floats does not. Nothing is assumed of their values, so what is proved of the actor holds
  for double arithmetic with its rounding, overflow and underflow.
\<close>

text \<open>The keys of the server's configuration that the actor reads or writes.\<close>

record 'f config =
  dropout_training :: bool
  v_reward :: 'f
  v_reward_decay :: 'f
  v_reward_decay_steps :: 'f

record policy =
  policy_name :: string

record 'lc tfquery =
  fvars :: "nat list"
  tfq_LC_idxs :: 'lc

record ('lc, 'f) NeuroSATDatapoint =
  n_vars :: nat
  n_clauses :: nat
  LC_idxs :: 'lc
  target_var :: nat
  target_v :: 'f

text \<open>
  \<^verbatim>\<open>ActorEpisodeResult = namedtuple('ActorEpisodeResult',
       ['dimacs', 'cuber', 'brancher', 'estimate', 'datapoints'])\<close>;
  the call \<^verbatim>\<open>tuple(...)\<close> around it keeps the five components in this order.
\<close>

record ('lc, 'f) ActorEpisodeResult =
  er_dimacs :: string
  er_cuber :: string
  er_brancher :: string
  er_estimate :: 'f
  er_datapoints :: "('lc, 'f) NeuroSATDatapoint list"

record ('sp, 's, 'w, 'lc, 'f) env =
  Z3Solver :: "'sp \<Rightarrow> solver_info \<Rightarrow> 's"
  play_asat :: "'s \<Rightarrow> policy \<Rightarrow> policy \<Rightarrow> 'w \<Rightarrow> (lit list \<times> lit list \<times> 'f) option"
  to_tf_query :: "'s \<Rightarrow> lit list \<Rightarrow> 'lc tfquery \<times> 's"
  sp_n_vars :: "'sp \<Rightarrow> nat"
  sp_n_clauses :: "'sp \<Rightarrow> nat"
  parse_dimacs :: "string \<Rightarrow> 'sp"
  mk_cuber :: "string \<Rightarrow> policy"
  mk_brancher :: "string \<Rightarrow> policy"
  NeuroQuery :: "'f config \<Rightarrow> int \<Rightarrow> 'f \<Rightarrow> 'w"
  py_truediv :: "int \<Rightarrow> 'f \<Rightarrow> error + 'f"
  math_pow :: "'f \<Rightarrow> 'f \<Rightarrow> error + 'f"
  py_mul :: "'f \<Rightarrow> 'f \<Rightarrow> 'f"

text \<open>
  The calls that leave the actor, and the solver operations, are recorded in a trace in
  the order in which they happen.
\<close>

datatype ('sp, 'w, 'lc, 'f) event =
    GetWeights
  | SetWeights 'w
  | FreshSolver 'sp
  | PlayAsat policy policy
  | ToTfQuery "lit list"
  | ProcessActorEpisode "('lc, 'f) ActorEpisodeResult"

subsection \<open>The value target\<close>

text \<open>
  \<^verbatim>\<open>
  def _compute_v(self, n_steps_left):
      steps = n_steps_left / self.cfg['v_reward_decay_steps']
      return self.cfg['v_reward'] * math.pow(self.cfg['v_reward_decay'], steps)
  \<close>
  An exception of the division or of the power leaves the function.
\<close>

definition compute_v :: "('sp, 's, 'w, 'lc, 'f) env \<Rightarrow> 'f config \<Rightarrow> int \<Rightarrow> error + 'f" where
  "compute_v env cfg n_steps_left =
     (case py_truediv env n_steps_left (v_reward_decay_steps cfg) of
        Inl e \<Rightarrow> Inl e
      | Inr steps \<Rightarrow>
          (case math_pow env (v_reward_decay cfg) steps of
             Inl e \<Rightarrow> Inl e
           | Inr p \<Rightarrow> Inr (py_mul env (v_reward cfg) p)))"

subsection \<open>Construction of an actor\<close>

text \<open>
  \<^verbatim>\<open>
  self.sps = []
  for root, subdirs, files in os.walk(actor_info['dimacs_dir']):
      for dimacs in files:
          self.sps.append((dimacs, parse_dimacs(os.path.join(root, dimacs))))
  \<close>
  A directory is a list of named subdirectories and a list of file names, in the order in
  which the operating system lists them. \<^verbatim>\<open>os.walk\<close> yields a directory before its
  subdirectories (top-down) as a triple of its path, the names of its subdirectories and the
  names of its files; the source's \<^verbatim>\<open>root\<close> is \<open>dirpath\<close> here. \<^verbatim>\<open>os.path.join\<close> is the
  one of \<^verbatim>\<open>posixpath\<close>.
\<close>

datatype dir = Dir (dir_subdirs: "(string \<times> dir) list") (dir_files: "string list")

definition path_join :: "string \<Rightarrow> string \<Rightarrow> string" where
  "path_join a b =
     (if b \<noteq> [] \<and> hd b = CHR ''/'' then b
      else if a = [] \<or> last a = CHR ''/'' then a @ b
      else a @ ''/'' @ b)"

fun walk :: "string \<Rightarrow> dir \<Rightarrow> (string \<times> string list \<times> string list) list" where
  "walk dirpath (Dir ds fs) =
     (dirpath, map fst ds, fs) # concat (map (\<lambda>(name, d). walk (path_join dirpath name) d) ds)"

definition load_sps :: "('sp, 's, 'w, 'lc, 'f) env \<Rightarrow> string \<Rightarrow> dir \<Rightarrow> (string \<times> 'sp) list" where
  "load_sps env dimacs_dir tree =
     concat (map (\<lambda>(dirpath, subdirs, files).
                    map (\<lambda>dimacs. (dimacs, parse_dimacs env (path_join dirpath dimacs))) files)
                 (walk dimacs_dir tree))"

text \<open>
  The fields of an \<^verbatim>\<open>Actor\<close>. The server is remote: of its state the actor sees the
  configuration, read once, and the parameters that \<^verbatim>\<open>get_weights\<close> returns
  (\<open>server_weights\<close>). \<open>neuroquery\<close> holds the weights loaded in the inference connection,
  and \<open>trace\<close> the calls made so far.
\<close>

record ('sp, 'w, 'lc, 'f) actor =
  server_weights :: 'w
  cfg :: "'f config"
  neuroquery :: 'w
  cubers :: "policy list"
  branchers :: "policy list"
  sps :: "(string \<times> 'sp) list"
  train :: bool
  z3opts :: solver_info
  trace :: "('sp, 'w, 'lc, 'f) event list"

definition Actor_init ::
  "('sp, 's, 'w, 'lc, 'f) env \<Rightarrow> 'f config \<Rightarrow> 'w \<Rightarrow> dir \<Rightarrow> int \<Rightarrow> 'f \<Rightarrow> actor_info \<Rightarrow> ('sp, 'w, 'lc, 'f) actor" where
  "Actor_init env server_cfg server_w tree gpu_id gpu_frac info =
     (let cfg' = server_cfg\<lparr>dropout_training := False\<rparr>
      in \<lparr>server_weights = server_w,
          cfg = cfg',
          neuroquery = NeuroQuery env cfg' gpu_id gpu_frac,
          cubers = map (mk_cuber env) (ai_cubers info),
          branchers = map (mk_brancher env) (ai_branchers info),
          sps = load_sps env (ai_dimacs_dir info) tree,
          train = ai_train info,
          z3opts = ai_solver info,
          trace = []\<rparr>)"

subsection \<open>One episode\<close>

text \<open>
  \<^verbatim>\<open>
  def _fresh_solver(self, sp):
      return Z3Solver(sp=sp, opts=self.z3opts)
  \<close>
\<close>

definition fresh_solver :: "('sp, 's, 'w, 'lc, 'f) env \<Rightarrow> ('sp, 'w, 'lc, 'f) actor \<Rightarrow> 'sp \<Rightarrow> 's" where
  "fresh_solver env self sp = Z3Solver env sp (z3opts self)"

text \<open>
  The loop of \<^verbatim>\<open>play_episode\<close> over \<^verbatim>\<open>range(len(min_trail))\<close>:
  \<^verbatim>\<open>
  for i in range(len(min_trail)):
      tfq         = s.to_tf_query(assumptions=min_trail[:i])
      if len(tfq.fvars) == 0: break
      target_var  = min_trail[i].var().idx()
      target_v    = self._compute_v(n_steps_left=len(min_trail) - i)
      datapoints.append(NeuroSATDatapoint(n_vars=sp.n_vars(), n_clauses=sp.n_clauses(),
                                          LC_idxs=tfq.LC_idxs,
                                          target_var=target_var, target_v=target_v))
  \<close>
  The function takes the indices still to visit, the solver's state, the examples and the
  solver calls so far; it returns the examples and the calls, or the exception raised.
\<close>

fun datapoints_loop ::
  "('sp, 's, 'w, 'lc, 'f) env \<Rightarrow> 'f config \<Rightarrow> 'sp \<Rightarrow> lit list \<Rightarrow> nat list \<Rightarrow> 's
     \<Rightarrow> ('lc, 'f) NeuroSATDatapoint list \<Rightarrow> ('sp, 'w, 'lc, 'f) event list
     \<Rightarrow> error + (('lc, 'f) NeuroSATDatapoint list \<times> ('sp, 'w, 'lc, 'f) event list)" where
  "datapoints_loop env c sp mt [] s datapoints tr = Inr (datapoints, tr)"
| "datapoints_loop env c sp mt (i # rest) s datapoints tr =
     (case to_tf_query env s (take i mt) of
        (tfq, s') \<Rightarrow>
          if length (fvars tfq) = 0 then Inr (datapoints, tr @ [ToTfQuery (take i mt)])
          else if \<not> i < length mt then Inl IndexError
          else (case compute_v env c (int (length mt) - int i) of
                  Inl e \<Rightarrow> Inl e
                | Inr v \<Rightarrow>
                    datapoints_loop env c sp mt rest s'
                      (datapoints @ [\<lparr>n_vars = sp_n_vars env sp,
                                       n_clauses = sp_n_clauses env sp,
                                       LC_idxs = tfq_LC_idxs tfq,
                                       target_var = var_idx (lit_var (mt ! i)),
                                       target_v = v\<rparr>])
                      (tr @ [ToTfQuery (take i mt)])))"

text \<open>
  \<^verbatim>\<open>
  datapoints = []
  if self.train:
      min_trail   = [lit for lit in trail if lit in core]
      s           = self._fresh_solver(sp)
      for i in range(len(min_trail)): ...
  \<close>
\<close>

definition make_datapoints ::
  "('sp, 's, 'w, 'lc, 'f) env \<Rightarrow> ('sp, 'w, 'lc, 'f) actor \<Rightarrow> 'sp \<Rightarrow> lit list \<Rightarrow> lit list
     \<Rightarrow> error + (('lc, 'f) NeuroSATDatapoint list \<times> ('sp, 'w, 'lc, 'f) event list)" where
  "make_datapoints env self sp trail core =
     (if train self then
        datapoints_loop env (cfg self) sp (min_trail trail core)
          [0..<length (min_trail trail core)] (fresh_solver env self sp) [] [FreshSolver sp]
      else Inr ([], []))"

text \<open>
  \<^verbatim>\<open>
  def play_episode(self, dimacs, sp, cuber, brancher):
      self.neuroquery.set_weights(self.server.get_weights())
      ssat_result = play_asat(self._fresh_solver(sp), cuber, brancher)
      if ssat_result is None: return None
      trail, core, estimate = ssat_result
      ...
      self.server.process_actor_episode(tuple(ActorEpisodeResult(dimacs=dimacs,
          cuber=cuber.name, brancher=brancher.name, estimate=estimate, datapoints=datapoints)))
  \<close>
  The result is the actor after the episode, or the exception that ends it.
\<close>

definition play_episode ::
  "('sp, 's, 'w, 'lc, 'f) env \<Rightarrow> ('sp, 'w, 'lc, 'f) actor \<Rightarrow> string \<Rightarrow> 'sp \<Rightarrow> policy \<Rightarrow> policy
     \<Rightarrow> error + ('sp, 'w, 'lc, 'f) actor" where
  "play_episode env self dimacs sp cuber brancher =
     (let w = server_weights self;
          self1 = self\<lparr>neuroquery := w,
                       trace := trace self @ [GetWeights, SetWeights w, FreshSolver sp,
                                              PlayAsat cuber brancher]\<rparr>
      in case play_asat env (fresh_solver env self sp) cuber brancher w of
           None \<Rightarrow> Inr self1
         | Some (trail, core, estimate) \<Rightarrow>
             (case make_datapoints env self1 sp trail core of
                Inl e \<Rightarrow> Inl e
              | Inr (datapoints, calls) \<Rightarrow>
                  Inr (self1\<lparr>trace := trace self1 @ calls @
                         [ProcessActorEpisode
                            \<lparr>er_dimacs = dimacs,
                             er_cuber = policy_name cuber,
                             er_brancher = policy_name brancher,
                             er_estimate = estimate,
                             er_datapoints = datapoints\<rparr>]\<rparr>)))"

subsection \<open>The loop of an actor\<close>

text \<open>
  \<^verbatim>\<open>
  def loop(self):
      while True:
          for (dimacs, sp) in self.sps:
              for brancher in self.branchers:
                  for cuber in self.cubers:
                      self.play_episode(dimacs, sp, cuber, brancher)
  \<close>
  A \<^verbatim>\<open>for\<close> loop whose body can raise is \<open>for_each\<close>: it stops at the first exception.
  The \<^verbatim>\<open>while True\<close> never returns; \<open>loop\<close> runs it for a given number of rounds and
  returns the actor reached then, or the exception that ended it earlier.
\<close>

fun for_each :: "('a \<Rightarrow> 'st \<Rightarrow> error + 'st) \<Rightarrow> 'a list \<Rightarrow> 'st \<Rightarrow> error + 'st" where
  "for_each body [] st = Inr st"
| "for_each body (x # xs) st =
     (case body x st of Inl e \<Rightarrow> Inl e | Inr st' \<Rightarrow> for_each body xs st')"

definition loop_body ::
  "('sp, 's, 'w, 'lc, 'f) env \<Rightarrow> ('sp, 'w, 'lc, 'f) actor \<Rightarrow> error + ('sp, 'w, 'lc, 'f) actor" where
  "loop_body env self =
     for_each (\<lambda>(dimacs, sp) self1.
        for_each (\<lambda>brancher self2.
           for_each (\<lambda>cuber self3. play_episode env self3 dimacs sp cuber brancher)
             (cubers self2) self2)
          (branchers self1) self1)
       (sps self) self"

fun loop :: "nat \<Rightarrow> ('sp, 's, 'w, 'lc, 'f) env \<Rightarrow> ('sp, 'w, 'lc, 'f) actor \<Rightarrow> error + ('sp, 'w, 'lc, 'f) actor" where
  "loop 0 env self = Inr self"
| "loop (Suc rounds) env self =
     (case loop_body env self of Inl e \<Rightarrow> Inl e | Inr self' \<Rightarrow> loop rounds env self')"

subsection \<open>Observations on a run\<close>

text \<open>
  The solver of the generation loop is one object, so the query of index \<open>i\<close> is answered
  in the state that the queries of the indices below \<open>i\<close> have left: \<open>solver_at\<close> is that
  state, \<open>tfq_at\<close> the query returned at index \<open>i\<close> and \<open>datapoint_at\<close> the example
  that the loop body builds at index \<open>i\<close>.
\<close>

fun solver_at :: "('sp, 's, 'w, 'lc, 'f) env \<Rightarrow> 's \<Rightarrow> lit list \<Rightarrow> nat \<Rightarrow> 's" where
  "solver_at env s mt 0 = s"
| "solver_at env s mt (Suc i) = snd (to_tf_query env (solver_at env s mt i) (take i mt))"

definition tfq_at :: "('sp, 's, 'w, 'lc, 'f) env \<Rightarrow> 's \<Rightarrow> lit list \<Rightarrow> nat \<Rightarrow> 'lc tfquery" where
  "tfq_at env s mt i = fst (to_tf_query env (solver_at env s mt i) (take i mt))"

definition datapoint_at ::
  "('sp, 's, 'w, 'lc, 'f) env \<Rightarrow> 'f config \<Rightarrow> 'sp \<Rightarrow> 's \<Rightarrow> lit list \<Rightarrow> nat \<Rightarrow> ('lc, 'f) NeuroSATDatapoint" where
  "datapoint_at env c sp s mt i =
     \<lparr>n_vars = sp_n_vars env sp,
      n_clauses = sp_n_clauses env sp,
      LC_idxs = tfq_LC_idxs (tfq_at env s mt i),
      target_var = var_idx (lit_var (mt ! i)),
      target_v = projr (compute_v env c (int (length mt) - int i))\<rparr>"

text \<open>The parameter pulls and the reports pushed in a trace.\<close>

definition pulls :: "('sp, 'w, 'lc, 'f) event list \<Rightarrow> nat" where
  "pulls tr = length (filter (\<lambda>e. e = GetWeights) tr)"

fun pushes :: "('sp, 'w, 'lc, 'f) event list \<Rightarrow> ('lc, 'f) ActorEpisodeResult list" where
  "pushes [] = []"
| "pushes (ProcessActorEpisode r # tr) = r # pushes tr"
| "pushes (e # tr) = pushes tr"

text \<open>
  A trace builds a solver for each query when every \<open>ToTfQuery\<close> in it comes right after a
  \<open>FreshSolver\<close>.
\<close>

fun fresh_solver_per_query :: "('sp, 'w, 'lc, 'f) event list \<Rightarrow> bool" where
  "fresh_solver_per_query [] = True"
| "fresh_solver_per_query (FreshSolver sp # ToTfQuery a # tr) = fresh_solver_per_query tr"
| "fresh_solver_per_query (ToTfQuery a # tr) = False"
| "fresh_solver_per_query (e # tr) = fresh_solver_per_query tr"

text \<open>The combinations of one round of the loop, in the order in which it plays them.\<close>

definition triples :: "('sp, 'w, 'lc, 'f) actor \<Rightarrow> (string \<times> 'sp \<times> policy \<times> policy) list" where
  "triples self =
     concat (map (\<lambda>(dimacs, sp).
        concat (map (\<lambda>brancher. map (\<lambda>cuber. (dimacs, sp, cuber, brancher)) (cubers self))
                    (branchers self)))
       (sps self))"

definition episode ::
  "('sp, 's, 'w, 'lc, 'f) env \<Rightarrow> string \<times> 'sp \<times> policy \<times> policy \<Rightarrow> ('sp, 'w, 'lc, 'f) actor
     \<Rightarrow> error + ('sp, 'w, 'lc, 'f) actor" where
  "episode env t self =
     (case t of (dimacs, sp, cuber, brancher) \<Rightarrow> play_episode env self dimacs sp cuber brancher)"

text \<open>
  Whether the search of a combination returns an outcome, for the solver options and the
  server parameters of an actor.
\<close>

definition has_outcome ::
  "('sp, 's, 'w, 'lc, 'f) env \<Rightarrow> ('sp, 'w, 'lc, 'f) actor \<Rightarrow> string \<times> 'sp \<times> policy \<times> policy \<Rightarrow> bool" where
  "has_outcome env self t =
     (case t of (dimacs, sp, cuber, brancher) \<Rightarrow>
        play_asat env (Z3Solver env sp (z3opts self)) cuber brancher (server_weights self) \<noteq> None)"

text \<open>The part of a path after its last separator, as \<^verbatim>\<open>os.path.basename\<close> gives it.\<close>

definition basename :: "string \<Rightarrow> string" where
  "basename p = rev (takeWhile (\<lambda>c. c \<noteq> CHR ''/'') (rev p))"

subsection \<open>A small instance\<close>

text \<open>
  Collaborators for concrete runs. A problem is the pair of its variable and clause counts.
  The state of a solver is the number of queries it has answered, and it reports that number
  as the constraint-index mapping; the free variables of a query are the variables of the
  problem that no assumption mentions. The search fails when the weights are \<open>0\<close>; otherwise
  its trail decides the variables 0, 1 and 2 and its core holds the first and the last
  decision.

  The floats of the instance are real numbers, and \<open>exact_truediv\<close> and \<open>exact_pow\<close> are
  its division and its power, with exact arithmetic; they raise for a zero divisor and for
  a base outside the domain of the power as Python does. They stand for double arithmetic
  at the arguments of the runs below only: the runs divide 1 and 2 by 1, raise 1/2 to these
  powers and multiply the result by 1, every number that occurs is a double, and double
  arithmetic gives the same values (1/2 and 1/4) without rounding.
\<close>

definition example_trail :: "lit list" where
  "example_trail = [Lit (Var 0) True, Lit (Var 1) False, Lit (Var 2) True]"

definition example_core :: "lit list" where
  "example_core = [Lit (Var 2) True, Lit (Var 0) True]"

definition exact_truediv :: "int \<Rightarrow> real \<Rightarrow> error + real" where
  "exact_truediv n x = (if x = 0 then Inl ZeroDivisionError else Inr (of_int n / x))"

definition exact_pow :: "real \<Rightarrow> real \<Rightarrow> error + real" where
  "exact_pow x y =
     (if x = 0 \<and> y < 0 then Inl ValueError
      else if x < 0 \<and> y \<noteq> of_int \<lfloor>y\<rfloor> then Inl ValueError
      else Inr (if y = of_int \<lfloor>y\<rfloor> then x powi \<lfloor>y\<rfloor> else x powr y))"

definition example_env :: "nat \<Rightarrow> (nat \<times> nat, nat, nat, nat, real) env" where
  "example_env nv =
     \<lparr>Z3Solver = (\<lambda>sp opts. 0),
      play_asat = (\<lambda>s cuber brancher w.
         if w = 0 then None else Some (example_trail, example_core, 1)),
      to_tf_query = (\<lambda>s assumptions.
         (\<lparr>fvars = [v \<leftarrow> [0..<nv]. v \<notin> set (map (\<lambda>l. var_idx (lit_var l)) assumptions)],
           tfq_LC_idxs = s\<rparr>, Suc s)),
      sp_n_vars = fst,
      sp_n_clauses = snd,
      parse_dimacs = (\<lambda>path. (length path, 0)),
      mk_cuber = (\<lambda>info. \<lparr>policy_name = info\<rparr>),
      mk_brancher = (\<lambda>info. \<lparr>policy_name = info\<rparr>),
      NeuroQuery = (\<lambda>c gpu_id gpu_frac. 0),
      py_truediv = exact_truediv,
      math_pow = exact_pow,
      py_mul = (\<lambda>x y. x * y)\<rparr>"

definition example_cfg :: "real config" where
  "example_cfg = \<lparr>dropout_training = False, v_reward = 1, v_reward_decay = 1 / 2,
                  v_reward_decay_steps = 1\<rparr>"

definition example_actor :: "nat \<Rightarrow> bool \<Rightarrow> (nat \<times> nat, nat, nat, real) actor" where
  "example_actor w tr =
     \<lparr>server_weights = w, cfg = example_cfg, neuroquery = 0,
      cubers = [\<lparr>policy_name = ''c''\<rparr>], branchers = [\<lparr>policy_name = ''b''\<rparr>],
      sps = [(''x.cnf'', (3, 2))], train = tr,
      z3opts = \<lparr>max_conflicts = 10, sat_restart_max = 10\<rparr>, trace = []\<rparr>"

definition example_role :: "int \<Rightarrow> string \<Rightarrow> actor_info" where
  "example_role k d =
     \<lparr>ai_n = k, ai_cubers = [''c''], ai_branchers = [''b''], ai_dimacs_dir = d,
      ai_train = True, ai_solver = \<lparr>max_conflicts = 10, sat_restart_max = 10\<rparr>\<rparr>"

definition example_roles :: "actor_info list" where
  "example_roles = [example_role 3 ''r0'', example_role 2 ''r1'', example_role 5 ''r2'']"

text \<open>A corpus with two files of the same name in two subdirectories.\<close>

definition example_tree :: dir where
  "example_tree = Dir [(''a'', Dir [] [''x.cnf'']), (''bb'', Dir [] [''x.cnf''])] []"

section \<open>Properties\<close>

subsection \<open>The minimal trail\<close>

lemma subseq_into_filter:
  "subseq ys xs \<Longrightarrow> \<forall>y\<in>set ys. P y \<Longrightarrow> subseq ys (filter P xs)"
  by (metis filter_True subseq_filter)

text \<open>
  Claim C2. For a core whose literals all occur in the trail, the minimal trail is the
  subsequence of the trail made of the literals of the core: it is a subsequence of the
  trail (so the order of the trail is kept), its literals are exactly those of the core,
  every subsequence of the trail with literals in the core is a subsequence of it, and it is
  no longer than the trail.
\<close>

theorem min_trail_subsequence:
  assumes "set core \<subseteq> set trail"
  shows "min_trail trail core = filter (\<lambda>l. l \<in> set core) trail
       \<and> subseq (min_trail trail core) trail
       \<and> set (min_trail trail core) = set core
       \<and> (\<forall>ys. subseq ys trail \<and> set ys \<subseteq> set core \<longrightarrow> subseq ys (min_trail trail core))
       \<and> length (min_trail trail core) \<le> length trail"
proof (intro conjI allI impI)
  show "min_trail trail core = filter (\<lambda>l. l \<in> set core) trail"
    by (simp add: min_trail_def)
  show "subseq (min_trail trail core) trail"
    by (simp add: min_trail_def)
  show "set (min_trail trail core) = set core"
    using assms by (auto simp: min_trail_def)
  show "subseq ys (min_trail trail core)" if "subseq ys trail \<and> set ys \<subseteq> set core" for ys
    unfolding min_trail_def using that by (intro subseq_into_filter) auto
  show "length (min_trail trail core) \<le> length trail"
    by (simp add: min_trail_def)
qed

theorem min_trail_subsequence_witness:
  "set example_core \<subseteq> set example_trail
   \<and> min_trail example_trail example_core = [Lit (Var 0) True, Lit (Var 2) True]
   \<and> subseq (min_trail example_trail example_core) example_trail
   \<and> set (min_trail example_trail example_core) = set example_core
   \<and> subseq [Lit (Var 2) True] example_trail
   \<and> set [Lit (Var 2) True] \<subseteq> set example_core
   \<and> subseq [Lit (Var 2) True] (min_trail example_trail example_core)
   \<and> length (min_trail example_trail example_core) \<le> length example_trail"
proof -
  have h: "set example_core \<subseteq> set example_trail"
    by (simp add: example_core_def example_trail_def)
  have v: "min_trail example_trail example_core = [Lit (Var 0) True, Lit (Var 2) True]"
    by (simp add: min_trail_def example_core_def example_trail_def)
  have y: "subseq [Lit (Var 2) True] example_trail \<and> set [Lit (Var 2) True] \<subseteq> set example_core"
    by (simp add: example_core_def example_trail_def)
  show ?thesis
    using h v y min_trail_subsequence [OF h] by blast
qed

subsection \<open>Role lookup\<close>

lemma get_actor_info_loop_Inr:
  "get_actor_info_loop idx i actors = Inr a \<longleftrightarrow>
     (\<exists>k<length actors. a = actors ! k
        \<and> idx < i + sum_list (map ai_n (take (Suc k) actors))
        \<and> (\<forall>j<k. \<not> idx < i + sum_list (map ai_n (take (Suc j) actors))))"
proof (induction actors arbitrary: i)
  case Nil
  then show ?case by simp
next
  case (Cons x xs)
  show ?case
  proof (cases "idx < i + ai_n x")
    case True
    then show ?thesis
      apply (simp add: Let_def)
      apply (rule iffI)
       apply (rule exI[of _ 0]) apply simp
      apply (erule exE)
      subgoal for k by (cases k) auto
      done
  next
    case False
    then show ?thesis
      apply (simp add: Let_def Cons.IH)
      apply (rule iffI)
       apply (erule exE)
      subgoal for k
        apply (rule exI[of _ "Suc k"])
        apply (auto simp: less_Suc_eq_0_disj add.assoc)
        done
       apply (erule exE)
      subgoal for k
        apply (cases k)
         apply simp
        subgoal for k'
        apply (rule exI[of _ "k'"])
          apply (auto simp: less_Suc_eq_0_disj add.assoc)
          done
        done
      done
  qed
qed

lemma get_actor_info_loop_Inl:
  "get_actor_info_loop idx i actors = Inl e \<longleftrightarrow>
     (e = CouldNotFindActorInfo idx
        \<and> (\<forall>k<length actors. \<not> idx < i + sum_list (map ai_n (take (Suc k) actors))))"
proof (induction actors arbitrary: i)
  case Nil
  then show ?case by auto
next
  case (Cons x xs)
  show ?case
    by (auto simp: Let_def Cons.IH less_Suc_eq_0_disj add.assoc all_conj_distrib)
qed

lemma cumulative_le_total:
  "\<forall>a\<in>set actors. 0 \<le> ai_n a \<Longrightarrow> cumulative actors k \<le> sum_list (map ai_n actors)"
proof -
  assume nn: "\<forall>a\<in>set actors. 0 \<le> ai_n a"
  have "sum_list (map ai_n actors) = sum_list (map ai_n (take k actors)) + sum_list (map ai_n (drop k actors))"
    by (metis append_take_drop_id map_append sum_list.append)
  moreover have "0 \<le> sum_list (map ai_n (drop k actors))"
    using nn by (intro sum_list_nonneg) (auto dest: in_set_dropD)
  ultimately show ?thesis by (simp add: cumulative_def)
qed

text \<open>
  Claim C9. The lookup returns a role exactly when it is the first one whose cumulative
  count exceeds the index, and raises exactly when no cumulative count does; with counts
  that are not negative, every index at or beyond the total count raises. For the counts
  3, 2 and 5 the indices 0 to 2 get the first role, 3 and 4 the second, 5 to 9 the third,
  and every index from 10 on raises.
\<close>

theorem get_actor_info_buckets:
  "(get_actor_info actors idx = Inr a \<longleftrightarrow>
      (\<exists>k<length actors. a = actors ! k \<and> idx < cumulative actors (Suc k)
          \<and> (\<forall>j<k. \<not> idx < cumulative actors (Suc j))))
   \<and> (get_actor_info actors idx = Inl e \<longleftrightarrow>
        e = CouldNotFindActorInfo idx \<and> (\<forall>k<length actors. \<not> idx < cumulative actors (Suc k)))
   \<and> ((\<forall>x\<in>set actors. 0 \<le> ai_n x) \<and> sum_list (map ai_n actors) \<le> idx \<longrightarrow>
        get_actor_info actors idx = Inl (CouldNotFindActorInfo idx))
   \<and> (map ai_n actors = [3, 2, 5] \<longrightarrow>
        (0 \<le> idx \<and> idx \<le> 2 \<longrightarrow> get_actor_info actors idx = Inr (actors ! 0))
      \<and> (3 \<le> idx \<and> idx \<le> 4 \<longrightarrow> get_actor_info actors idx = Inr (actors ! 1))
      \<and> (5 \<le> idx \<and> idx \<le> 9 \<longrightarrow> get_actor_info actors idx = Inr (actors ! 2))
      \<and> (10 \<le> idx \<longrightarrow> get_actor_info actors idx = Inl (CouldNotFindActorInfo idx)))"
proof (intro conjI impI)
  show "get_actor_info actors idx = Inr a \<longleftrightarrow>
      (\<exists>k<length actors. a = actors ! k \<and> idx < cumulative actors (Suc k)
          \<and> (\<forall>j<k. \<not> idx < cumulative actors (Suc j)))"
    unfolding get_actor_info_def cumulative_def get_actor_info_loop_Inr by simp
  show inl: "get_actor_info actors idx = Inl e \<longleftrightarrow>
        e = CouldNotFindActorInfo idx \<and> (\<forall>k<length actors. \<not> idx < cumulative actors (Suc k))" for e
    unfolding get_actor_info_def cumulative_def get_actor_info_loop_Inl by simp
  show "get_actor_info actors idx = Inl (CouldNotFindActorInfo idx)"
    if "(\<forall>x\<in>set actors. 0 \<le> ai_n x) \<and> sum_list (map ai_n actors) \<le> idx"
  proof -
    have "\<not> idx < cumulative actors (Suc k)" for k
      using cumulative_le_total [of actors "Suc k"] that by linarith
    then show ?thesis by (simp add: inl)
  qed
next
  assume m: "map ai_n actors = [3, 2, 5]"
  then obtain x y z where a: "actors = [x, y, z]" "ai_n x = 3" "ai_n y = 2" "ai_n z = 5"
    by auto
  show "get_actor_info actors idx = Inr (actors ! 0)" if "0 \<le> idx \<and> idx \<le> 2"
    using that a by (simp add: get_actor_info_def)
  show "get_actor_info actors idx = Inr (actors ! 1)" if "3 \<le> idx \<and> idx \<le> 4"
    using that a by (simp add: get_actor_info_def)
  show "get_actor_info actors idx = Inr (actors ! 2)" if "5 \<le> idx \<and> idx \<le> 9"
    using that a by (simp add: get_actor_info_def)
  show "get_actor_info actors idx = Inl (CouldNotFindActorInfo idx)" if "10 \<le> idx"
    using that a by (simp add: get_actor_info_def)
qed

theorem get_actor_info_buckets_witness:
  "map ai_n (example_roles) = [3, 2, 5]
   \<and> get_actor_info example_roles 4 = Inr (example_roles ! 1)
   \<and> get_actor_info example_roles 10 = Inl (CouldNotFindActorInfo 10)"
  using get_actor_info_buckets [of example_roles 4 "example_roles ! 1" "CouldNotFindActorInfo 4"]
    get_actor_info_buckets [of example_roles 10 "example_roles ! 1" "CouldNotFindActorInfo 10"]
  by (simp add: example_roles_def example_role_def)

subsection \<open>The generation loop\<close>

lemma datapoints_loop_total:
  assumes "\<forall>i\<in>set is. i < length mt \<and> (\<exists>v. compute_v env c (int (length mt) - int i) = Inr v)"
  shows "\<exists>r. datapoints_loop env c sp mt is s dps tr = Inr r"
  using assms
proof (induction "is" arbitrary: s dps tr)
  case Nil
  then show ?case by simp
next
  case (Cons i rest)
  then show ?case
    by (auto split: prod.splits sum.splits)
qed

lemma datapoints_loop_range:
  assumes "datapoints_loop env c sp mt [a..<length mt] (solver_at env s0 mt a) dps tr = Inr (dps', tr')"
  shows "\<exists>k. a \<le> k \<and> (a \<le> length mt \<longrightarrow> k \<le> length mt)
        \<and> dps' = dps @ map (datapoint_at env c sp s0 mt) [a..<k]
        \<and> (\<forall>j. a \<le> j \<and> j < k \<longrightarrow> fvars (tfq_at env s0 mt j) \<noteq> []
                 \<and> (\<exists>v. compute_v env c (int (length mt) - int j) = Inr v))
        \<and> (if k < length mt
            then fvars (tfq_at env s0 mt k) = []
               \<and> tr' = tr @ map (\<lambda>j. ToTfQuery (take j mt)) [a..<Suc k]
            else tr' = tr @ map (\<lambda>j. ToTfQuery (take j mt)) [a..<k])"
  using assms
proof (induction "length mt - a" arbitrary: a dps tr)
  case 0
  then have "[a..<length mt] = []" by simp
  with 0 show ?case
    by (intro exI[of _ a]) auto
next
  case (Suc d)
  then have lt: "a < length mt" by simp
  then have upt: "[a..<length mt] = a # [Suc a..<length mt]"
    by (simp add: upt_conv_Cons)
  obtain tfq s' where q: "to_tf_query env (solver_at env s0 mt a) (take a mt) = (tfq, s')"
    by (cases "to_tf_query env (solver_at env s0 mt a) (take a mt)")
  have tfq: "tfq_at env s0 mt a = tfq" and s': "solver_at env s0 mt (Suc a) = s'"
    using q by (simp_all add: tfq_at_def)
  show ?case
  proof (cases "fvars tfq = []")
    case True
    with Suc.prems upt q lt tfq show ?thesis
      by (intro exI[of _ a]) auto
  next
    case False
    from Suc.prems upt q lt False obtain v where
      v: "compute_v env c (int (length mt) - int a) = Inr v"
      and rec: "datapoints_loop env c sp mt [Suc a..<length mt] (solver_at env s0 mt (Suc a))
                (dps @ [datapoint_at env c sp s0 mt a]) (tr @ [ToTfQuery (take a mt)]) = Inr (dps', tr')"
      by (auto simp: s' tfq datapoint_at_def split: sum.splits)
    have "d = length mt - Suc a" using Suc.hyps by simp
    from Suc.hyps(1)[OF this rec] obtain k where k:
      "Suc a \<le> k" "k \<le> length mt"
      "dps' = (dps @ [datapoint_at env c sp s0 mt a]) @ map (datapoint_at env c sp s0 mt) [Suc a..<k]"
      "\<forall>j. Suc a \<le> j \<and> j < k \<longrightarrow> fvars (tfq_at env s0 mt j) \<noteq> []
                 \<and> (\<exists>v. compute_v env c (int (length mt) - int j) = Inr v)"
      "if k < length mt
            then fvars (tfq_at env s0 mt k) = []
               \<and> tr' = (tr @ [ToTfQuery (take a mt)]) @ map (\<lambda>j. ToTfQuery (take j mt)) [Suc a..<Suc k]
            else tr' = (tr @ [ToTfQuery (take a mt)]) @ map (\<lambda>j. ToTfQuery (take j mt)) [Suc a..<k]"
      using lt by auto
    have ak: "a < k" using k(1) by simp
    have j: "\<forall>j. a \<le> j \<and> j < k \<longrightarrow> fvars (tfq_at env s0 mt j) \<noteq> []
                 \<and> (\<exists>v. compute_v env c (int (length mt) - int j) = Inr v)"
    proof (intro allI impI)
      fix j assume "a \<le> j \<and> j < k"
      then consider "j = a" | "Suc a \<le> j \<and> j < k" by linarith
      then show "fvars (tfq_at env s0 mt j) \<noteq> [] \<and> (\<exists>v. compute_v env c (int (length mt) - int j) = Inr v)"
        using False tfq v k(4) by cases auto
    qed
    show ?thesis
      using k(2,3,5) ak j
      by (intro exI[of _ k]) (auto simp: upt_conv_Cons)
  qed
qed

subsection \<open>Episodes\<close>

lemma pushes_append: "pushes (a @ b) = pushes a @ pushes b"
  by (induction a rule: pushes.induct) simp_all

lemma pulls_append: "pulls (a @ b) = pulls a + pulls b"
  by (simp add: pulls_def)

lemma pushes_queries: "pushes (map (\<lambda>j. ToTfQuery (f j)) js) = []"
  by (induction js) simp_all

lemma pulls_queries: "pulls (map (\<lambda>j. ToTfQuery (f j)) js) = 0"
  by (induction js) (simp_all add: pulls_def)

lemma make_datapoints_not_train:
  "\<not> train self \<Longrightarrow> make_datapoints env self sp trail core = Inr ([], [])"
  by (simp add: make_datapoints_def fresh_solver_def)

lemma make_datapoints_total:
  assumes "\<forall>i<length (min_trail trail core).
             \<exists>v. compute_v env (cfg self) (int (length (min_trail trail core)) - int i) = Inr v"
  shows "\<exists>r. make_datapoints env self sp trail core = Inr r"
proof (cases "train self")
  case True
  have "\<exists>r. datapoints_loop env (cfg self) sp (min_trail trail core)
          [0..<length (min_trail trail core)] (Z3Solver env sp (z3opts self)) [] [FreshSolver sp] = Inr r"
    using assms by (intro datapoints_loop_total) simp
  with True show ?thesis by (simp add: make_datapoints_def fresh_solver_def)
next
  case False
  then show ?thesis by (simp add: make_datapoints_not_train)
qed

lemma make_datapoints_train:
  assumes "train self" "make_datapoints env self sp trail core = Inr (dps, calls)"
  shows "\<exists>k\<le>length (min_trail trail core).
           dps = map (datapoint_at env (cfg self) sp (Z3Solver env sp (z3opts self)) (min_trail trail core)) [0..<k]
         \<and> (\<forall>j<k. fvars (tfq_at env (Z3Solver env sp (z3opts self)) (min_trail trail core) j) \<noteq> []
                 \<and> (\<exists>v. compute_v env (cfg self) (int (length (min_trail trail core)) - int j) = Inr v))
         \<and> (if k < length (min_trail trail core)
             then fvars (tfq_at env (Z3Solver env sp (z3opts self)) (min_trail trail core) k) = []
                \<and> calls = FreshSolver sp # map (\<lambda>j. ToTfQuery (take j (min_trail trail core))) [0..<Suc k]
             else calls = FreshSolver sp # map (\<lambda>j. ToTfQuery (take j (min_trail trail core))) [0..<k])"
proof -
  have "datapoints_loop env (cfg self) sp (min_trail trail core) [0..<length (min_trail trail core)]
          (solver_at env (Z3Solver env sp (z3opts self)) (min_trail trail core) 0) [] [FreshSolver sp]
        = Inr (dps, calls)"
    using assms by (simp add: make_datapoints_def fresh_solver_def)
  from datapoints_loop_range [OF this] show ?thesis
    by (auto split: if_splits)
qed

text \<open>
  Claim C1. In training mode the examples of an episode are at most as many as the literals
  of the minimal trail, and the loop ends at the first index whose query has no free
  variable: when the value target raises no exception for the step counts of the minimal
  trail the generation returns, and whenever it returns, the examples are those of the
  indices below their number, each of these indices had a query with a free variable, an
  index whose query has no free variable has no example and neither has a later one, and
  when the examples are fewer than the literals, the query at the first index without
  example has no free variable and is the last call made.
\<close>

theorem generation_stops_at_first_empty_query:
  assumes "train self"
  shows "((\<forall>i<length (min_trail trail core).
              \<exists>v. compute_v env (cfg self) (int (length (min_trail trail core)) - int i) = Inr v)
            \<longrightarrow> (\<exists>r. make_datapoints env self sp trail core = Inr r))
       \<and> (\<forall>dps calls. make_datapoints env self sp trail core = Inr (dps, calls) \<longrightarrow>
            length dps \<le> length (min_trail trail core)
          \<and> dps = map (datapoint_at env (cfg self) sp (Z3Solver env sp (z3opts self))
                         (min_trail trail core)) [0..<length dps]
          \<and> (\<forall>j<length dps.
                 fvars (tfq_at env (Z3Solver env sp (z3opts self)) (min_trail trail core) j) \<noteq> [])
          \<and> (\<forall>i<length (min_trail trail core).
                 fvars (tfq_at env (Z3Solver env sp (z3opts self)) (min_trail trail core) i) = []
                 \<longrightarrow> length dps \<le> i)
          \<and> (length dps < length (min_trail trail core) \<longrightarrow>
                 fvars (tfq_at env (Z3Solver env sp (z3opts self)) (min_trail trail core)
                          (length dps)) = []
               \<and> calls = FreshSolver sp #
                           map (\<lambda>j. ToTfQuery (take j (min_trail trail core))) [0..<Suc (length dps)])
          \<and> (length dps = length (min_trail trail core) \<longrightarrow>
                 calls = FreshSolver sp #
                           map (\<lambda>j. ToTfQuery (take j (min_trail trail core))) [0..<length dps]))"
proof (intro conjI impI allI)
  show "\<exists>r. make_datapoints env self sp trail core = Inr r"
    if "\<forall>i<length (min_trail trail core).
          \<exists>v. compute_v env (cfg self) (int (length (min_trail trail core)) - int i) = Inr v"
    using that by (rule make_datapoints_total)
next
  fix dps calls
  assume r: "make_datapoints env self sp trail core = Inr (dps, calls)"
  from make_datapoints_train [OF assms r] obtain k where k:
    "k \<le> length (min_trail trail core)"
    "dps = map (datapoint_at env (cfg self) sp (Z3Solver env sp (z3opts self)) (min_trail trail core)) [0..<k]"
    "\<forall>j<k. fvars (tfq_at env (Z3Solver env sp (z3opts self)) (min_trail trail core) j) \<noteq> []"
    "if k < length (min_trail trail core)
             then fvars (tfq_at env (Z3Solver env sp (z3opts self)) (min_trail trail core) k) = []
                \<and> calls = FreshSolver sp # map (\<lambda>j. ToTfQuery (take j (min_trail trail core))) [0..<Suc k]
             else calls = FreshSolver sp # map (\<lambda>j. ToTfQuery (take j (min_trail trail core))) [0..<k]"
    by blast
  have len: "length dps = k" using k(2) by simp
  show "length dps \<le> length (min_trail trail core)"
    using k(1) len by simp
  show "dps = map (datapoint_at env (cfg self) sp (Z3Solver env sp (z3opts self))
                         (min_trail trail core)) [0..<length dps]"
    using k(2) len by simp
  show "fvars (tfq_at env (Z3Solver env sp (z3opts self)) (min_trail trail core) j) \<noteq> []"
    if "j < length dps" for j
    using k(3) len that by simp
  show "length dps \<le> i"
    if "i < length (min_trail trail core)"
      "fvars (tfq_at env (Z3Solver env sp (z3opts self)) (min_trail trail core) i) = []" for i
    using k(3) len that by (meson not_le)
  show "fvars (tfq_at env (Z3Solver env sp (z3opts self)) (min_trail trail core) (length dps)) = []"
    if "length dps < length (min_trail trail core)"
    using k(4) len that by simp
  show "calls = FreshSolver sp #
            map (\<lambda>j. ToTfQuery (take j (min_trail trail core))) [0..<Suc (length dps)]"
    if "length dps < length (min_trail trail core)"
    using k(4) len that by simp
  show "calls = FreshSolver sp #
            map (\<lambda>j. ToTfQuery (take j (min_trail trail core))) [0..<length dps]"
    if "length dps = length (min_trail trail core)"
    using k(4) len that by simp
qed


lemma example_env_sel:
  "Z3Solver (example_env nv) sp opts = 0"
  "to_tf_query (example_env nv) s assumptions =
     (\<lparr>fvars = [v \<leftarrow> [0..<nv]. v \<notin> set (map (\<lambda>l. var_idx (lit_var l)) assumptions)],
       tfq_LC_idxs = s\<rparr>, Suc s)"
  "sp_n_vars (example_env nv) = fst"
  "sp_n_clauses (example_env nv) = snd"
  by (simp_all add: example_env_def)

lemma compute_v_example:
  "0 \<le> n \<Longrightarrow> compute_v (example_env nv) example_cfg n = Inr ((1 / 2) ^ nat n)"
  by (simp add: compute_v_def example_env_def example_cfg_def exact_truediv_def exact_pow_def
      power_int_def)

theorem generation_stops_at_first_empty_query_witness:
  "train (example_actor 1 True)
   \<and> make_datapoints (example_env 2) (example_actor 1 True) (2, 2) example_trail example_trail
       = Inr ([\<lparr>n_vars = 2, n_clauses = 2, LC_idxs = 0, target_var = 0, target_v = 1 / 8\<rparr>,
               \<lparr>n_vars = 2, n_clauses = 2, LC_idxs = 1, target_var = 1, target_v = 1 / 4\<rparr>],
              [FreshSolver (2, 2), ToTfQuery [], ToTfQuery [Lit (Var 0) True],
               ToTfQuery [Lit (Var 0) True, Lit (Var 1) False]])
   \<and> length (min_trail example_trail example_trail) = 3
   \<and> fvars (tfq_at (example_env 2) (Z3Solver (example_env 2) (2, 2) (z3opts (example_actor 1 True)))
               (min_trail example_trail example_trail) 2) = []"
proof -
  have t: "train (example_actor 1 True)"
    by (simp add: example_actor_def)
  have m: "min_trail example_trail example_trail = example_trail"
    by (simp add: min_trail_def)
  have r: "make_datapoints (example_env 2) (example_actor 1 True) (2, 2) example_trail example_trail
       = Inr ([\<lparr>n_vars = 2, n_clauses = 2, LC_idxs = 0, target_var = 0, target_v = 1 / 8\<rparr>,
               \<lparr>n_vars = 2, n_clauses = 2, LC_idxs = 1, target_var = 1, target_v = 1 / 4\<rparr>],
              [FreshSolver (2, 2), ToTfQuery [], ToTfQuery [Lit (Var 0) True],
               ToTfQuery [Lit (Var 0) True, Lit (Var 1) False]])"
    unfolding make_datapoints_def fresh_solver_def m
    by (simp add: example_actor_def example_env_sel example_trail_def compute_v_example
        power3_eq_cube power2_eq_square upt_rec [of _ 2])
  have l: "length (min_trail example_trail example_trail) = 3"
    unfolding m by (simp add: example_trail_def)
  note g = generation_stops_at_first_empty_query [OF t, where env = "example_env 2"
      and sp = "(2, 2)" and trail = example_trail and core = example_trail,
      THEN conjunct2, rule_format, OF r]
  have "fvars (tfq_at (example_env 2) (Z3Solver (example_env 2) (2, 2) (z3opts (example_actor 1 True)))
               (min_trail example_trail example_trail) 2) = []"
    using g l by (simp add: numeral_2_eq_2)
  with t r l show ?thesis by blast
qed

lemma play_episode_None:
  assumes "play_asat env (Z3Solver env sp (z3opts self)) cuber brancher (server_weights self) = None"
  shows "play_episode env self dimacs sp cuber brancher =
           Inr (self\<lparr>neuroquery := server_weights self,
                     trace := trace self @ [GetWeights, SetWeights (server_weights self),
                                            FreshSolver sp, PlayAsat cuber brancher]\<rparr>)"
  using assms by (simp add: play_episode_def fresh_solver_def Let_def)

lemma play_episode_Some:
  assumes "play_asat env (Z3Solver env sp (z3opts self)) cuber brancher (server_weights self)
             = Some (trail, core, estimate)"
  shows "play_episode env self dimacs sp cuber brancher =
           (case make_datapoints env self sp trail core of
              Inl e \<Rightarrow> Inl e
            | Inr (datapoints, calls) \<Rightarrow>
                Inr (self\<lparr>neuroquery := server_weights self,
                          trace := trace self @ [GetWeights, SetWeights (server_weights self),
                                                 FreshSolver sp, PlayAsat cuber brancher] @ calls @
                            [ProcessActorEpisode
                               \<lparr>er_dimacs = dimacs, er_cuber = policy_name cuber,
                                er_brancher = policy_name brancher, er_estimate = estimate,
                                er_datapoints = datapoints\<rparr>]\<rparr>))"
  using assms by (simp add: play_episode_def fresh_solver_def Let_def make_datapoints_def split: sum.splits)

lemma pushes_calls:
  assumes "make_datapoints env self sp trail core = Inr (dps, calls)"
  shows "pushes calls = [] \<and> pulls calls = 0"
proof (cases "train self")
  case True
  from make_datapoints_train [OF True assms] show ?thesis
    by (auto simp: pushes_queries pulls_queries pushes_append pulls_append pulls_def
        simp del: upt_Suc split: if_splits)
next
  case False
  with assms show ?thesis by (simp add: make_datapoints_not_train pulls_def)
qed

subsection \<open>One round of the loop\<close>

lemma episode_play:
  "episode env (dimacs, sp, cuber, brancher) self = play_episode env self dimacs sp cuber brancher"
  by (simp add: episode_def)

lemma for_each_append:
  "for_each body (xs @ ys) st =
     (case for_each body xs st of Inl e \<Rightarrow> Inl e | Inr st' \<Rightarrow> for_each body ys st')"
  by (induction xs arbitrary: st) (auto split: sum.splits)

lemma play_episode_frame:
  assumes "play_episode env self dimacs sp cuber brancher = Inr self'"
  shows "cubers self' = cubers self \<and> branchers self' = branchers self \<and> sps self' = sps self
       \<and> cfg self' = cfg self \<and> train self' = train self \<and> z3opts self' = z3opts self
       \<and> server_weights self' = server_weights self"
  using assms
  by (auto simp: play_episode_def fresh_solver_def Let_def split: option.splits sum.splits prod.splits)

lemma episodes_frame:
  "for_each (episode env) ts self = Inr self' \<Longrightarrow>
     cubers self' = cubers self \<and> branchers self' = branchers self \<and> sps self' = sps self"
proof (induction ts arbitrary: self)
  case Nil
  then show ?case by simp
next
  case (Cons t ts)
  obtain dimacs sp cuber brancher where t: "t = (dimacs, sp, cuber, brancher)"
    by (cases t) auto
  from Cons.prems obtain self1 where
    s1: "play_episode env self dimacs sp cuber brancher = Inr self1"
    and r: "for_each (episode env) ts self1 = Inr self'"
    by (auto simp: t episode_play split: sum.splits)
  from Cons.IH [OF r] play_episode_frame [OF s1] show ?case by simp
qed

lemma cubers_loop:
  "for_each (\<lambda>cuber self3. play_episode env self3 dimacs sp cuber brancher) cs self =
     for_each (episode env) (map (\<lambda>cuber. (dimacs, sp, cuber, brancher)) cs) self"
  by (induction cs arbitrary: self) (auto simp: episode_play split: sum.splits)

lemma branchers_loop:
  "for_each (\<lambda>brancher self2.
       for_each (\<lambda>cuber self3. play_episode env self3 dimacs sp cuber brancher)
         (cubers self2) self2) bs self =
     for_each (episode env)
       (concat (map (\<lambda>brancher. map (\<lambda>cuber. (dimacs, sp, cuber, brancher)) (cubers self)) bs))
       self"
proof (induction bs arbitrary: self)
  case Nil
  then show ?case by simp
next
  case (Cons b bs)
  show ?case
  proof (cases "for_each (episode env) (map (\<lambda>cuber. (dimacs, sp, cuber, b)) (cubers self)) self")
    case (Inl e)
    then show ?thesis by (simp add: cubers_loop for_each_append)
  next
    case (Inr self1)
    from episodes_frame [OF Inr] have "cubers self1 = cubers self" by simp
    with Inr Cons.IH [of self1] show ?thesis
      by (simp add: cubers_loop for_each_append)
  qed
qed

lemma sps_loop:
  "cubers self = cs \<Longrightarrow> branchers self = bs \<Longrightarrow>
   for_each (\<lambda>(dimacs, sp) self1.
        for_each (\<lambda>brancher self2.
           for_each (\<lambda>cuber self3. play_episode env self3 dimacs sp cuber brancher)
             (cubers self2) self2)
          (branchers self1) self1) ps self =
     for_each (episode env)
       (concat (map (\<lambda>(dimacs, sp).
          concat (map (\<lambda>brancher. map (\<lambda>cuber. (dimacs, sp, cuber, brancher)) cs) bs)) ps))
       self"
proof (induction ps arbitrary: self)
  case Nil
  then show ?case by simp
next
  case (Cons p ps)
  obtain dimacs sp where p: "p = (dimacs, sp)" by (cases p)
  show ?case
  proof (cases "for_each (episode env)
       (concat (map (\<lambda>brancher. map (\<lambda>cuber. (dimacs, sp, cuber, brancher)) cs) bs)) self")
    case (Inl e)
    with Cons.prems show ?thesis by (simp add: p branchers_loop for_each_append)
  next
    case (Inr self1)
    from episodes_frame [OF Inr] Cons.prems
    have "cubers self1 = cs" "branchers self1 = bs" by simp_all
    from Cons.IH [OF this] Inr Cons.prems show ?thesis
      by (simp add: p branchers_loop for_each_append)
  qed
qed

lemma loop_body_triples: "loop_body env self = for_each (episode env) (triples self) self"
  unfolding loop_body_def triples_def by (rule sps_loop) simp_all

subsection \<open>An episode without outcome\<close>

text \<open>
  Claim C3. When the search returns no outcome, the episode ends without exception after
  the parameter pull and the search: no query is made, no example is built and no report is
  pushed. A round of the loop plays the episodes of its combinations in order, and after
  such an episode it goes on with the next combination from the state the episode left.
\<close>

theorem absent_outcome_reports_nothing:
  assumes "play_asat env (Z3Solver env sp (z3opts self)) cuber brancher (server_weights self) = None"
  shows "play_episode env self dimacs sp cuber brancher =
           Inr (self\<lparr>neuroquery := server_weights self,
                     trace := trace self @ [GetWeights, SetWeights (server_weights self),
                                            FreshSolver sp, PlayAsat cuber brancher]\<rparr>)
       \<and> pushes (trace (projr (play_episode env self dimacs sp cuber brancher))) = pushes (trace self)
       \<and> loop_body env a = for_each (episode env) (triples a) a
       \<and> for_each (episode env) ((dimacs, sp, cuber, brancher) # rest) self =
           for_each (episode env) rest
             (self\<lparr>neuroquery := server_weights self,
                   trace := trace self @ [GetWeights, SetWeights (server_weights self),
                                          FreshSolver sp, PlayAsat cuber brancher]\<rparr>)"
  using play_episode_None [OF assms, of dimacs]
  by (simp add: episode_play pushes_append loop_body_triples)

lemma example_search_fails:
  "play_asat (example_env nv) (Z3Solver (example_env nv) sp opts) cuber brancher 0 = None"
  by (simp add: example_env_def)

lemma example_search_succeeds:
  "play_asat (example_env nv) (Z3Solver (example_env nv) sp opts) cuber brancher (Suc w)
     = Some (example_trail, example_core, 1)"
  by (simp add: example_env_def)

theorem absent_outcome_reports_nothing_witness:
  "play_asat (example_env 3) (Z3Solver (example_env 3) (3, 2) (z3opts (example_actor 0 True)))
      \<lparr>policy_name = ''c''\<rparr> \<lparr>policy_name = ''b''\<rparr> (server_weights (example_actor 0 True)) = None
   \<and> play_episode (example_env 3) (example_actor 0 True) ''x.cnf'' (3, 2)
        \<lparr>policy_name = ''c''\<rparr> \<lparr>policy_name = ''b''\<rparr>
       = Inr ((example_actor 0 True)
               \<lparr>trace := [GetWeights, SetWeights 0, FreshSolver (3, 2),
                           PlayAsat \<lparr>policy_name = ''c''\<rparr> \<lparr>policy_name = ''b''\<rparr>]\<rparr>)
   \<and> pushes (trace (projr (play_episode (example_env 3) (example_actor 0 True) ''x.cnf'' (3, 2)
        \<lparr>policy_name = ''c''\<rparr> \<lparr>policy_name = ''b''\<rparr>))) = []
   \<and> loop_body (example_env 3) (example_actor 0 True)
       = Inr ((example_actor 0 True)
               \<lparr>trace := [GetWeights, SetWeights 0, FreshSolver (3, 2),
                           PlayAsat \<lparr>policy_name = ''c''\<rparr> \<lparr>policy_name = ''b''\<rparr>]\<rparr>)"
proof -
  have h: "play_asat (example_env 3) (Z3Solver (example_env 3) (3, 2) (z3opts (example_actor 0 True)))
      \<lparr>policy_name = ''c''\<rparr> \<lparr>policy_name = ''b''\<rparr> (server_weights (example_actor 0 True)) = None"
    by (simp add: example_actor_def example_search_fails)
  have t: "triples (example_actor 0 True)
      = [(''x.cnf'', (3, 2), \<lparr>policy_name = ''c''\<rparr>, \<lparr>policy_name = ''b''\<rparr>)]"
    by (simp add: triples_def example_actor_def)
  note g = absent_outcome_reports_nothing [OF h, where dimacs = "''x.cnf''" and rest = "[]"
      and a = "example_actor 0 True"]
  from g have "loop_body (example_env 3) (example_actor 0 True)
       = Inr ((example_actor 0 True)
               \<lparr>trace := [GetWeights, SetWeights 0, FreshSolver (3, 2),
                           PlayAsat \<lparr>policy_name = ''c''\<rparr> \<lparr>policy_name = ''b''\<rparr>]\<rparr>)"
    unfolding t by (simp add: example_actor_def)
  with h g show ?thesis
    by (simp add: example_actor_def)
qed

subsection \<open>Pulls and pushes of an episode\<close>

lemma play_episode_total:
  assumes "train self \<longrightarrow> (\<forall>n>0. \<exists>v. compute_v env (cfg self) n = Inr v)"
  shows "\<exists>self'. play_episode env self dimacs sp cuber brancher = Inr self'"
proof (cases "play_asat env (Z3Solver env sp (z3opts self)) cuber brancher (server_weights self)")
  case None
  then show ?thesis by (simp add: play_episode_None)
next
  case (Some r)
  obtain trail core estimate where r: "r = (trail, core, estimate)" by (cases r)
  have "\<exists>x. make_datapoints env self sp trail core = Inr x"
  proof (cases "train self")
    case True
    with assms show ?thesis by (intro make_datapoints_total) simp
  next
    case False
    then show ?thesis by (simp add: make_datapoints_not_train)
  qed
  then obtain dps calls where "make_datapoints env self sp trail core = Inr (dps, calls)"
    by auto
  with Some r show ?thesis
    by (simp add: play_episode_Some)
qed

text \<open>
  Claim C6, as stated, fails: an episode whose search returns no outcome pulls the
  parameters once and pushes no report.
\<close>

theorem episode_push_counterexample:
  "play_episode (example_env 3) (example_actor 0 True) ''x.cnf'' (3, 2)
        \<lparr>policy_name = ''c''\<rparr> \<lparr>policy_name = ''b''\<rparr>
       = Inr ((example_actor 0 True)
               \<lparr>trace := [GetWeights, SetWeights 0, FreshSolver (3, 2),
                           PlayAsat \<lparr>policy_name = ''c''\<rparr> \<lparr>policy_name = ''b''\<rparr>]\<rparr>)
   \<and> pulls (trace (projr (play_episode (example_env 3) (example_actor 0 True) ''x.cnf'' (3, 2)
        \<lparr>policy_name = ''c''\<rparr> \<lparr>policy_name = ''b''\<rparr>))) = 1
   \<and> length (pushes (trace (projr (play_episode (example_env 3) (example_actor 0 True) ''x.cnf''
        (3, 2) \<lparr>policy_name = ''c''\<rparr> \<lparr>policy_name = ''b''\<rparr>)))) \<noteq> 1"
  by (simp add: play_episode_def fresh_solver_def example_actor_def example_env_def pulls_def)

text \<open>
  Claim C6, amended. An episode that ends without exception (as every episode does when the
  actor is not training, or the value target raises no exception for a positive step count)
  pulls the parameters exactly once and loads them into the inference connection before
  the search runs; it pushes exactly one report, as its last call, when the search returns an
  outcome, and none when it returns no outcome.
\<close>

theorem episode_one_pull_and_report_on_outcome:
  "((train self \<longrightarrow> (\<forall>n>0. \<exists>v. compute_v env (cfg self) n = Inr v)) \<longrightarrow>
      (\<exists>self'. play_episode env self dimacs sp cuber brancher = Inr self'))
   \<and> (\<forall>self'. play_episode env self dimacs sp cuber brancher = Inr self' \<longrightarrow>
        neuroquery self' = server_weights self
      \<and> (\<exists>calls. trace self' = trace self @ [GetWeights, SetWeights (server_weights self),
                                              FreshSolver sp, PlayAsat cuber brancher] @ calls
             \<and> pulls calls = 0
             \<and> (case play_asat env (Z3Solver env sp (z3opts self)) cuber brancher
                         (server_weights self) of
                  None \<Rightarrow> calls = []
                | Some (trail, core, estimate) \<Rightarrow>
                    (\<exists>q dps. calls = q @ [ProcessActorEpisode
                                 \<lparr>er_dimacs = dimacs, er_cuber = policy_name cuber,
                                  er_brancher = policy_name brancher, er_estimate = estimate,
                                  er_datapoints = dps\<rparr>]
                       \<and> pushes q = [])))
      \<and> pulls (trace self') = pulls (trace self) + 1
      \<and> length (pushes (trace self')) = length (pushes (trace self)) +
           (case play_asat env (Z3Solver env sp (z3opts self)) cuber brancher
                         (server_weights self) of None \<Rightarrow> 0 | Some r \<Rightarrow> 1))"
proof (intro conjI impI allI)
  show "\<exists>self'. play_episode env self dimacs sp cuber brancher = Inr self'"
    if "train self \<longrightarrow> (\<forall>n>0. \<exists>v. compute_v env (cfg self) n = Inr v)"
    using that by (rule play_episode_total)
next
  fix self'
  assume ok: "play_episode env self dimacs sp cuber brancher = Inr self'"
  let ?head = "[GetWeights, SetWeights (server_weights self), FreshSolver sp, PlayAsat cuber brancher]"
  have *: "neuroquery self' = server_weights self
      \<and> (\<exists>calls. trace self' = trace self @ ?head @ calls
             \<and> pulls calls = 0
             \<and> (case play_asat env (Z3Solver env sp (z3opts self)) cuber brancher
                         (server_weights self) of
                  None \<Rightarrow> calls = []
                | Some (trail, core, estimate) \<Rightarrow>
                    (\<exists>q dps. calls = q @ [ProcessActorEpisode
                                 \<lparr>er_dimacs = dimacs, er_cuber = policy_name cuber,
                                  er_brancher = policy_name brancher, er_estimate = estimate,
                                  er_datapoints = dps\<rparr>]
                       \<and> pushes q = [])))
      \<and> pulls (trace self') = pulls (trace self) + 1
      \<and> length (pushes (trace self')) = length (pushes (trace self)) +
           (case play_asat env (Z3Solver env sp (z3opts self)) cuber brancher
                         (server_weights self) of None \<Rightarrow> 0 | Some r \<Rightarrow> 1)"
  proof (cases "play_asat env (Z3Solver env sp (z3opts self)) cuber brancher (server_weights self)")
    case None
    from ok play_episode_None [OF None, of dimacs] have
      "self' = self\<lparr>neuroquery := server_weights self, trace := trace self @ ?head\<rparr>"
      by simp
    with None show ?thesis
      by (simp add: pulls_def pushes_append)
  next
    case (Some r)
    obtain trail core estimate where r: "r = (trail, core, estimate)" by (cases r)
    from ok Some r obtain dps calls where
      m: "make_datapoints env self sp trail core = Inr (dps, calls)"
      and s: "self' = self\<lparr>neuroquery := server_weights self,
                          trace := trace self @ ?head @ calls @
                            [ProcessActorEpisode
                               \<lparr>er_dimacs = dimacs, er_cuber = policy_name cuber,
                                er_brancher = policy_name brancher, er_estimate = estimate,
                                er_datapoints = dps\<rparr>]\<rparr>"
      by (auto simp: play_episode_Some split: sum.splits)
    from pushes_calls [OF m] have c: "pushes calls = []" "pulls calls = 0" by simp_all
    have "pulls (calls @ [ProcessActorEpisode
                               \<lparr>er_dimacs = dimacs, er_cuber = policy_name cuber,
                                er_brancher = policy_name brancher, er_estimate = estimate,
                                er_datapoints = dps\<rparr>]) = 0"
      using c(2) by (simp add: pulls_def)
    with Some r s c show ?thesis
      by (auto simp: pulls_append pushes_append pulls_def)
  qed
  show "neuroquery self' = server_weights self" using * by blast
  show "\<exists>calls. trace self' = trace self @ ?head @ calls
             \<and> pulls calls = 0
             \<and> (case play_asat env (Z3Solver env sp (z3opts self)) cuber brancher
                         (server_weights self) of
                  None \<Rightarrow> calls = []
                | Some (trail, core, estimate) \<Rightarrow>
                    (\<exists>q dps. calls = q @ [ProcessActorEpisode
                                 \<lparr>er_dimacs = dimacs, er_cuber = policy_name cuber,
                                  er_brancher = policy_name brancher, er_estimate = estimate,
                                  er_datapoints = dps\<rparr>]
                       \<and> pushes q = []))" using * by blast
  show "pulls (trace self') = pulls (trace self) + 1" using * by blast
  show "length (pushes (trace self')) = length (pushes (trace self)) +
           (case play_asat env (Z3Solver env sp (z3opts self)) cuber brancher
                         (server_weights self) of None \<Rightarrow> 0 | Some r \<Rightarrow> 1)" using * by blast
qed


lemma example_datapoints:
  "make_datapoints (example_env 3) (example_actor w True) (3, 2) example_trail example_core
     = Inr ([\<lparr>n_vars = 3, n_clauses = 2, LC_idxs = 0, target_var = 0, target_v = 1 / 4\<rparr>,
             \<lparr>n_vars = 3, n_clauses = 2, LC_idxs = 1, target_var = 2, target_v = 1 / 2\<rparr>],
            [FreshSolver (3, 2), ToTfQuery [], ToTfQuery [Lit (Var 0) True]])"
proof -
  have m: "min_trail example_trail example_core = [Lit (Var 0) True, Lit (Var 2) True]"
    by (simp add: min_trail_def example_trail_def example_core_def)
  show ?thesis
    unfolding make_datapoints_def fresh_solver_def m
    by (simp add: example_actor_def example_env_sel compute_v_example power2_eq_square
        upt_rec [of _ 3])
qed

lemma example_episode:
  "play_episode (example_env 3) (example_actor (Suc 0) True) ''x.cnf'' (3, 2)
        \<lparr>policy_name = ''c''\<rparr> \<lparr>policy_name = ''b''\<rparr>
     = Inr ((example_actor (Suc 0) True)
         \<lparr>neuroquery := Suc 0,
          trace := [GetWeights, SetWeights (Suc 0), FreshSolver (3, 2),
                    PlayAsat \<lparr>policy_name = ''c''\<rparr> \<lparr>policy_name = ''b''\<rparr>,
                    FreshSolver (3, 2), ToTfQuery [], ToTfQuery [Lit (Var 0) True],
                    ProcessActorEpisode
                      \<lparr>er_dimacs = ''x.cnf'', er_cuber = ''c'', er_brancher = ''b'',
                       er_estimate = 1,
                       er_datapoints =
                         [\<lparr>n_vars = 3, n_clauses = 2, LC_idxs = 0, target_var = 0,
                           target_v = 1 / 4\<rparr>,
                          \<lparr>n_vars = 3, n_clauses = 2, LC_idxs = 1, target_var = 2,
                           target_v = 1 / 2\<rparr>]\<rparr>]\<rparr>)"
proof -
  have s: "play_asat (example_env 3) (Z3Solver (example_env 3) (3, 2) (z3opts (example_actor (Suc 0) True)))
      \<lparr>policy_name = ''c''\<rparr> \<lparr>policy_name = ''b''\<rparr> (server_weights (example_actor (Suc 0) True))
      = Some (example_trail, example_core, 1)"
    by (simp add: example_actor_def example_search_succeeds)
  show ?thesis
    unfolding play_episode_Some [OF s] example_datapoints
    by (simp add: example_actor_def)
qed

theorem episode_one_pull_and_report_on_outcome_witness:
  "train (example_actor (Suc 0) True)
   \<and> compute_v (example_env 3) (cfg (example_actor (Suc 0) True)) 1 = Inr (1 / 2)
   \<and> compute_v (example_env 3) (cfg (example_actor (Suc 0) True)) 2 = Inr (1 / 4)
   \<and> play_asat (example_env 3) (Z3Solver (example_env 3) (3, 2) (z3opts (example_actor (Suc 0) True)))
        \<lparr>policy_name = ''c''\<rparr> \<lparr>policy_name = ''b''\<rparr> (server_weights (example_actor (Suc 0) True))
       = Some (example_trail, example_core, 1)
   \<and> pulls (trace (projr (play_episode (example_env 3) (example_actor (Suc 0) True) ''x.cnf'' (3, 2)
        \<lparr>policy_name = ''c''\<rparr> \<lparr>policy_name = ''b''\<rparr>))) = 1
   \<and> length (pushes (trace (projr (play_episode (example_env 3) (example_actor (Suc 0) True)
        ''x.cnf'' (3, 2) \<lparr>policy_name = ''c''\<rparr> \<lparr>policy_name = ''b''\<rparr>)))) = 1"
proof -
  have c: "train (example_actor (Suc 0) True)"
    by (simp add: example_actor_def)
  have v: "compute_v (example_env 3) (cfg (example_actor (Suc 0) True)) 1 = Inr (1 / 2)"
    "compute_v (example_env 3) (cfg (example_actor (Suc 0) True)) 2 = Inr (1 / 4)"
    by (simp_all add: example_actor_def compute_v_example power2_eq_square)
  have a: "train (example_actor (Suc 0) True) \<longrightarrow>
      (\<forall>n>0. \<exists>v. compute_v (example_env 3) (cfg (example_actor (Suc 0) True)) n = Inr v)"
    by (simp add: example_actor_def compute_v_example)
  have s: "play_asat (example_env 3) (Z3Solver (example_env 3) (3, 2) (z3opts (example_actor (Suc 0) True)))
      \<lparr>policy_name = ''c''\<rparr> \<lparr>policy_name = ''b''\<rparr> (server_weights (example_actor (Suc 0) True))
      = Some (example_trail, example_core, 1)"
    by (simp add: example_actor_def example_search_succeeds)
  note t = episode_one_pull_and_report_on_outcome [where self = "example_actor (Suc 0) True"
      and env = "example_env 3" and dimacs = "''x.cnf''" and sp = "(3, 2)"
      and cuber = "\<lparr>policy_name = ''c''\<rparr>" and brancher = "\<lparr>policy_name = ''b''\<rparr>"]
  from t a obtain self' where
    r: "play_episode (example_env 3) (example_actor (Suc 0) True) ''x.cnf'' (3, 2)
        \<lparr>policy_name = ''c''\<rparr> \<lparr>policy_name = ''b''\<rparr> = Inr self'"
    by blast
  from t [THEN conjunct2, rule_format, OF r] s have
    "pulls (trace self') = 1" "length (pushes (trace self')) = 1"
    by (simp_all add: example_actor_def pulls_def)
  with c v s r show ?thesis by simp
qed

subsection \<open>The solver of the generation loop\<close>

text \<open>
  Claim C5, as stated, fails: with a minimal trail of two literals the loop makes two
  queries and builds one solver, and the second query is answered by the solver that has
  answered the first, not by a fresh one.
\<close>

theorem fresh_solver_per_index_counterexample:
  "snd (projr (make_datapoints (example_env 3) (example_actor 1 True) (3, 2) example_trail
                 example_core))
     = [FreshSolver (3, 2), ToTfQuery [], ToTfQuery [Lit (Var 0) True]]
   \<and> \<not> fresh_solver_per_query
          (snd (projr (make_datapoints (example_env 3) (example_actor 1 True) (3, 2)
                         example_trail example_core)))
   \<and> map LC_idxs (fst (projr (make_datapoints (example_env 3) (example_actor 1 True) (3, 2)
                                 example_trail example_core))) = [0, 1]
   \<and> tfq_LC_idxs (fst (to_tf_query (example_env 3)
                         (Z3Solver (example_env 3) (3, 2) (z3opts (example_actor 1 True)))
                         [Lit (Var 0) True])) = 0"
  by (simp add: example_datapoints) (simp add: example_env_def)

text \<open>
  Claim C5, amended. In training mode one solver is built for the instance before the
  loop, and the queries are made on that solver in the order of the indices: the query of
  index \<open>i\<close> has the assumption prefix \<open>min_trail[0:i]\<close> and is answered in the state in
  which the queries of the indices below \<open>i\<close> have left the solver. The indices queried are
  those from 0 to the first one whose query has no free variable, or all of them when there
  is none; the example of an index holds the constraint-index mapping of its query.
\<close>

theorem one_solver_answers_all_queries:
  assumes "train self"
  shows "((\<forall>i<length (min_trail trail core).
              \<exists>v. compute_v env (cfg self) (int (length (min_trail trail core)) - int i) = Inr v)
            \<longrightarrow> (\<exists>r. make_datapoints env self sp trail core = Inr r))
       \<and> (\<forall>dps calls. make_datapoints env self sp trail core = Inr (dps, calls) \<longrightarrow>
            calls = FreshSolver sp #
                      map (\<lambda>i. ToTfQuery (take i (min_trail trail core)))
                        [0..<(if length dps < length (min_trail trail core)
                              then Suc (length dps) else length (min_trail trail core))]
          \<and> (\<forall>i<length dps.
                 LC_idxs (dps ! i) =
                   tfq_LC_idxs (fst (to_tf_query env
                     (solver_at env (Z3Solver env sp (z3opts self)) (min_trail trail core) i)
                     (take i (min_trail trail core))))
               \<and> fvars (fst (to_tf_query env
                     (solver_at env (Z3Solver env sp (z3opts self)) (min_trail trail core) i)
                     (take i (min_trail trail core)))) \<noteq> [])
          \<and> (length dps < length (min_trail trail core) \<longrightarrow>
                 fvars (fst (to_tf_query env
                     (solver_at env (Z3Solver env sp (z3opts self)) (min_trail trail core)
                        (length dps))
                     (take (length dps) (min_trail trail core)))) = []))"
proof (intro conjI impI allI)
  show "\<exists>r. make_datapoints env self sp trail core = Inr r"
    if "\<forall>i<length (min_trail trail core).
          \<exists>v. compute_v env (cfg self) (int (length (min_trail trail core)) - int i) = Inr v"
    using that by (rule make_datapoints_total)
next
  fix dps calls
  assume r: "make_datapoints env self sp trail core = Inr (dps, calls)"
  from make_datapoints_train [OF assms r] obtain k where k:
    "k \<le> length (min_trail trail core)"
    "dps = map (datapoint_at env (cfg self) sp (Z3Solver env sp (z3opts self)) (min_trail trail core)) [0..<k]"
    "\<forall>j<k. fvars (tfq_at env (Z3Solver env sp (z3opts self)) (min_trail trail core) j) \<noteq> []"
    "if k < length (min_trail trail core)
             then fvars (tfq_at env (Z3Solver env sp (z3opts self)) (min_trail trail core) k) = []
                \<and> calls = FreshSolver sp # map (\<lambda>j. ToTfQuery (take j (min_trail trail core))) [0..<Suc k]
             else calls = FreshSolver sp # map (\<lambda>j. ToTfQuery (take j (min_trail trail core))) [0..<k]"
    by blast
  have len: "length dps = k" using k(2) by simp
  show "calls = FreshSolver sp #
                      map (\<lambda>i. ToTfQuery (take i (min_trail trail core)))
                        [0..<(if length dps < length (min_trail trail core)
                              then Suc (length dps) else length (min_trail trail core))]"
    using k(1,4) len by (auto simp del: upt_Suc split: if_splits)
  show "LC_idxs (dps ! i) =
                   tfq_LC_idxs (fst (to_tf_query env
                     (solver_at env (Z3Solver env sp (z3opts self)) (min_trail trail core) i)
                     (take i (min_trail trail core))))" if "i < length dps" for i
    using that len k(2) by (simp add: datapoint_at_def tfq_at_def)
  show "fvars (fst (to_tf_query env
                     (solver_at env (Z3Solver env sp (z3opts self)) (min_trail trail core) i)
                     (take i (min_trail trail core)))) \<noteq> []" if "i < length dps" for i
    using that len k(3) by (simp add: tfq_at_def)
  show "fvars (fst (to_tf_query env
                     (solver_at env (Z3Solver env sp (z3opts self)) (min_trail trail core)
                        (length dps))
                     (take (length dps) (min_trail trail core)))) = []"
    if "length dps < length (min_trail trail core)"
    using that len k(4) by (simp add: tfq_at_def)
qed

theorem one_solver_answers_all_queries_witness:
  "train (example_actor 1 True)
   \<and> make_datapoints (example_env 3) (example_actor 1 True) (3, 2) example_trail example_core
       = Inr ([\<lparr>n_vars = 3, n_clauses = 2, LC_idxs = 0, target_var = 0, target_v = 1 / 4\<rparr>,
               \<lparr>n_vars = 3, n_clauses = 2, LC_idxs = 1, target_var = 2, target_v = 1 / 2\<rparr>],
              [FreshSolver (3, 2), ToTfQuery [], ToTfQuery [Lit (Var 0) True]])
   \<and> solver_at (example_env 3) (Z3Solver (example_env 3) (3, 2) (z3opts (example_actor 1 True)))
        (min_trail example_trail example_core) 1 = 1
   \<and> tfq_LC_idxs (fst (to_tf_query (example_env 3)
        (solver_at (example_env 3) (Z3Solver (example_env 3) (3, 2) (z3opts (example_actor 1 True)))
           (min_trail example_trail example_core) 1)
        (take 1 (min_trail example_trail example_core)))) = 1"
proof -
  have t: "train (example_actor 1 True)"
    by (simp add: example_actor_def)
  note g = one_solver_answers_all_queries [OF t, where env = "example_env 3"
      and sp = "(3, 2)" and trail = example_trail and core = example_core,
      THEN conjunct2, rule_format, OF example_datapoints]
  from g have "tfq_LC_idxs (fst (to_tf_query (example_env 3)
        (solver_at (example_env 3) (Z3Solver (example_env 3) (3, 2) (z3opts (example_actor 1 True)))
           (min_trail example_trail example_core) 1)
        (take 1 (min_trail example_trail example_core)))) = 1"
    by (auto simp: nth_Cons' dest!: spec [of _ 1])
  moreover have "solver_at (example_env 3) (Z3Solver (example_env 3) (3, 2) (z3opts (example_actor 1 True)))
        (min_trail example_trail example_core) 1 = 1"
    by (simp add: example_env_def)
  ultimately show ?thesis
    using t example_datapoints [of 1] by simp
qed

subsection \<open>The scenario with three variables and two clauses\<close>

lemma min_trail_length_card:
  assumes "distinct trail" "set core \<subseteq> set trail"
  shows "length (min_trail trail core) = card (set core)"
proof -
  have "distinct (min_trail trail core)"
    using assms(1) by (simp add: min_trail_def)
  moreover have "set (min_trail trail core) = set core"
    using assms(2) by (auto simp: min_trail_def)
  ultimately show ?thesis
    by (metis distinct_card)
qed

text \<open>
  Claim C4, as stated, fails: in the scenario, with reward base 1, decay rate 1/2 and decay
  scale 1, the two examples have the target values 1/4 and 1/2, which increase with the
  index.
\<close>

theorem scenario_targets_counterexample:
  "sp_n_vars (example_env 3) (3, 2) = 3
   \<and> sp_n_clauses (example_env 3) (3, 2) = 2
   \<and> length example_trail = 3
   \<and> length example_core = 2
   \<and> set example_core \<subseteq> set example_trail
   \<and> v_reward_decay (cfg (example_actor (Suc 0) True)) < 1
   \<and> map target_v (er_datapoints (last (pushes (trace (projr
        (play_episode (example_env 3) (example_actor (Suc 0) True) ''x.cnf'' (3, 2)
           \<lparr>policy_name = ''c''\<rparr> \<lparr>policy_name = ''b''\<rparr>)))))) = [1 / 4, 1 / 2]
   \<and> \<not> sorted_wrt (>) (map target_v (er_datapoints (last (pushes (trace (projr
        (play_episode (example_env 3) (example_actor (Suc 0) True) ''x.cnf'' (3, 2)
           \<lparr>policy_name = ''c''\<rparr> \<lparr>policy_name = ''b''\<rparr>)))))))"
proof -
  have v: "map target_v (er_datapoints (last (pushes (trace (projr
        (play_episode (example_env 3) (example_actor (Suc 0) True) ''x.cnf'' (3, 2)
           \<lparr>policy_name = ''c''\<rparr> \<lparr>policy_name = ''b''\<rparr>)))))) = [1 / 4, 1 / 2]"
    unfolding example_episode by (simp add: example_actor_def)
  have d: "\<not> sorted_wrt (>) [1 / 4, 1 / 2 :: real]"
    by (simp only: sorted_wrt.simps list.set insert_iff ball_simps) simp
  have i: "sp_n_vars (example_env 3) (3, 2) = 3 \<and> sp_n_clauses (example_env 3) (3, 2) = 2
     \<and> length example_trail = 3 \<and> length example_core = 2
     \<and> set example_core \<subseteq> set example_trail"
    by (simp add: example_env_def example_trail_def example_core_def)
  have r: "v_reward_decay (cfg (example_actor (Suc 0) True)) < 1"
    by (simp add: example_actor_def example_cfg_def)
  from i r v d show ?thesis
    by (simp only: simp_thms)
qed

text \<open>
  Claim C4, amended. In training mode, for an instance with three variables and two
  clauses, a trail of three distinct literals and a core of two of them, and a value target
  that raises no exception for one and two remaining steps, the episode ends with a report
  that holds at most two examples, and exactly two when both queries have a free variable.
  Every example has three as its variable count and two as its clause count. The example
  of index 0 has the value target of two remaining steps and the example of index 1 that
  of one remaining step: the remaining steps decrease with the index, and no order of the
  target values is promised.
\<close>

theorem scenario_three_variables_two_clauses:
  assumes "sp_n_vars env sp = 3" and "sp_n_clauses env sp = 2" and "train self"
    and "play_asat env (Z3Solver env sp (z3opts self)) cuber brancher (server_weights self)
           = Some (trail, core, estimate)"
    and "length trail = 3" and "distinct trail"
    and "set core \<subseteq> set trail" and "card (set core) = 2"
    and "compute_v env (cfg self) 2 = Inr v2" and "compute_v env (cfg self) 1 = Inr v1"
  shows "\<exists>dps calls.
           play_episode env self dimacs sp cuber brancher =
             Inr (self\<lparr>neuroquery := server_weights self,
                       trace := trace self @ [GetWeights, SetWeights (server_weights self),
                                              FreshSolver sp, PlayAsat cuber brancher] @ calls @
                         [ProcessActorEpisode
                            \<lparr>er_dimacs = dimacs, er_cuber = policy_name cuber,
                             er_brancher = policy_name brancher, er_estimate = estimate,
                             er_datapoints = dps\<rparr>]\<rparr>)
         \<and> length dps \<le> 2
         \<and> ((\<forall>i<2. fvars (tfq_at env (Z3Solver env sp (z3opts self)) (min_trail trail core) i) \<noteq> [])
              \<longrightarrow> length dps = 2)
         \<and> (\<forall>d\<in>set dps. n_vars d = 3 \<and> n_clauses d = 2)
         \<and> map target_v dps = take (length dps) [v2, v1]"
proof -
  let ?mt = "min_trail trail core"
  let ?s0 = "Z3Solver env sp (z3opts self)"
  have len: "length ?mt = 2"
    using assms(6,7,8) by (simp add: min_trail_length_card)
  have ok: "\<forall>i<length ?mt. \<exists>v. compute_v env (cfg self) (int (length ?mt) - int i) = Inr v"
  proof (intro allI impI)
    fix i assume "i < length ?mt"
    then have "i = 0 \<or> i = 1" using len by auto
    then show "\<exists>v. compute_v env (cfg self) (int (length ?mt) - int i) = Inr v"
      using assms(9,10) len by auto
  qed
  from make_datapoints_total [OF ok] obtain dps calls where
    m: "make_datapoints env self sp trail core = Inr (dps, calls)"
    by (metis surj_pair)
  from make_datapoints_train [OF assms(3) m] obtain k where k:
    "k \<le> length ?mt"
    "dps = map (datapoint_at env (cfg self) sp ?s0 ?mt) [0..<k]"
    "if k < length ?mt then fvars (tfq_at env ?s0 ?mt k) = []
                \<and> calls = FreshSolver sp # map (\<lambda>j. ToTfQuery (take j ?mt)) [0..<Suc k]
             else calls = FreshSolver sp # map (\<lambda>j. ToTfQuery (take j ?mt)) [0..<k]"
    by blast
  have ldps: "length dps = k" using k(2) by simp
  have t0: "target_v (datapoint_at env (cfg self) sp ?s0 ?mt 0) = v2"
    and t1: "target_v (datapoint_at env (cfg self) sp ?s0 ?mt (Suc 0)) = v1"
    using assms(9,10) len by (simp_all add: datapoint_at_def)
  have ep: "play_episode env self dimacs sp cuber brancher =
             Inr (self\<lparr>neuroquery := server_weights self,
                       trace := trace self @ [GetWeights, SetWeights (server_weights self),
                                              FreshSolver sp, PlayAsat cuber brancher] @ calls @
                         [ProcessActorEpisode
                            \<lparr>er_dimacs = dimacs, er_cuber = policy_name cuber,
                             er_brancher = policy_name brancher, er_estimate = estimate,
                             er_datapoints = dps\<rparr>]\<rparr>)"
    using play_episode_Some [OF assms(4), of dimacs] m by simp
  have a: "length dps \<le> 2" using k(1) len ldps by simp
  have b: "length dps = 2"
    if "\<forall>i<2. fvars (tfq_at env ?s0 ?mt i) \<noteq> []"
  proof (rule ccontr)
    assume "length dps \<noteq> 2"
    with a ldps have "k < 2" by simp
    with k(3) len that show False by auto
  qed
  have c: "\<forall>d\<in>set dps. n_vars d = 3 \<and> n_clauses d = 2"
    using k(2) assms(1,2) by (auto simp: datapoint_at_def)
  have "k = 0 \<or> k = 1 \<or> k = 2" using k(1) len by auto
  then have d: "map target_v dps = take (length dps) [v2, v1]"
    using k(2) t0 t1 by (auto simp: numeral_2_eq_2)
  from ep a b c d show ?thesis
    by (intro exI [of _ dps] exI [of _ calls]) simp
qed

theorem scenario_three_variables_two_clauses_witness:
  "sp_n_vars (example_env 3) (3, 2) = 3
   \<and> sp_n_clauses (example_env 3) (3, 2) = 2
   \<and> train (example_actor (Suc 0) True)
   \<and> play_asat (example_env 3) (Z3Solver (example_env 3) (3, 2) (z3opts (example_actor (Suc 0) True)))
        \<lparr>policy_name = ''c''\<rparr> \<lparr>policy_name = ''b''\<rparr> (server_weights (example_actor (Suc 0) True))
       = Some (example_trail, example_core, 1)
   \<and> length example_trail = 3
   \<and> distinct example_trail
   \<and> set example_core \<subseteq> set example_trail
   \<and> card (set example_core) = 2
   \<and> compute_v (example_env 3) (cfg (example_actor (Suc 0) True)) 2 = Inr (1 / 4)
   \<and> compute_v (example_env 3) (cfg (example_actor (Suc 0) True)) 1 = Inr (1 / 2)
   \<and> length (er_datapoints (last (pushes (trace (projr
        (play_episode (example_env 3) (example_actor (Suc 0) True) ''x.cnf'' (3, 2)
           \<lparr>policy_name = ''c''\<rparr> \<lparr>policy_name = ''b''\<rparr>)))))) \<le> 2
   \<and> map target_v (er_datapoints (last (pushes (trace (projr
        (play_episode (example_env 3) (example_actor (Suc 0) True) ''x.cnf'' (3, 2)
           \<lparr>policy_name = ''c''\<rparr> \<lparr>policy_name = ''b''\<rparr>))))))
       = take (length (er_datapoints (last (pushes (trace (projr
            (play_episode (example_env 3) (example_actor (Suc 0) True) ''x.cnf'' (3, 2)
               \<lparr>policy_name = ''c''\<rparr> \<lparr>policy_name = ''b''\<rparr>))))))) [1 / 4, 1 / 2]"
proof -
  have h1: "sp_n_vars (example_env 3) (3, 2) = 3" and h2: "sp_n_clauses (example_env 3) (3, 2) = 2"
    by (simp_all add: example_env_def)
  have h3: "train (example_actor (Suc 0) True)"
    by (simp add: example_actor_def)
  have h4: "play_asat (example_env 3) (Z3Solver (example_env 3) (3, 2) (z3opts (example_actor (Suc 0) True)))
        \<lparr>policy_name = ''c''\<rparr> \<lparr>policy_name = ''b''\<rparr> (server_weights (example_actor (Suc 0) True))
       = Some (example_trail, example_core, 1)"
    by (simp add: example_actor_def example_search_succeeds)
  have h5: "length example_trail = 3" and h6: "distinct example_trail"
    and h7: "set example_core \<subseteq> set example_trail"
    by (simp_all add: example_trail_def example_core_def)
  have "distinct example_core" "length example_core = 2"
    by (simp_all add: example_core_def)
  then have h8: "card (set example_core) = 2"
    by (simp add: distinct_card)
  have h9: "compute_v (example_env 3) (cfg (example_actor (Suc 0) True)) 2 = Inr (1 / 4)"
    and h10: "compute_v (example_env 3) (cfg (example_actor (Suc 0) True)) 1 = Inr (1 / 2)"
    by (simp_all add: example_actor_def compute_v_example power2_eq_square)
  from scenario_three_variables_two_clauses [OF h1 h2 h3 h4 h5 h6 h7 h8 h9 h10, of "''x.cnf''"]
  obtain dps calls where
    e: "play_episode (example_env 3) (example_actor (Suc 0) True) ''x.cnf'' (3, 2)
           \<lparr>policy_name = ''c''\<rparr> \<lparr>policy_name = ''b''\<rparr> =
         Inr ((example_actor (Suc 0) True)
               \<lparr>neuroquery := server_weights (example_actor (Suc 0) True),
                trace := trace (example_actor (Suc 0) True) @
                  [GetWeights, SetWeights (server_weights (example_actor (Suc 0) True)),
                   FreshSolver (3, 2), PlayAsat \<lparr>policy_name = ''c''\<rparr> \<lparr>policy_name = ''b''\<rparr>] @
                  calls @
                  [ProcessActorEpisode
                     \<lparr>er_dimacs = ''x.cnf'', er_cuber = policy_name \<lparr>policy_name = ''c''\<rparr>,
                      er_brancher = policy_name \<lparr>policy_name = ''b''\<rparr>, er_estimate = 1,
                      er_datapoints = dps\<rparr>]\<rparr>)"
    and l: "length dps \<le> 2" and s: "map target_v dps = take (length dps) [1 / 4, 1 / 2]"
    by blast
  have "er_datapoints (last (pushes (trace (projr
        (play_episode (example_env 3) (example_actor (Suc 0) True) ''x.cnf'' (3, 2)
           \<lparr>policy_name = ''c''\<rparr> \<lparr>policy_name = ''b''\<rparr>))))) = dps"
    unfolding e by (simp add: pushes_append)
  with l s h1 h2 h3 h4 h5 h6 h7 h8 h9 h10 show ?thesis
    by (simp only: simp_thms)
qed

subsection \<open>The identifier of an instance\<close>

lemma basename_path_join:
  assumes "CHR ''/'' \<notin> set b"
  shows "basename (path_join a b) = b"
proof -
  have nb: "\<not> (b \<noteq> [] \<and> hd b = CHR ''/'')"
    using assms by (cases b) auto
  have tb: "takeWhile (\<lambda>c. c \<noteq> CHR ''/'') (rev b) = rev b"
    using assms by auto
  have tw: "takeWhile (\<lambda>c. c \<noteq> CHR ''/'') (rev b @ CHR ''/'' # ys) = rev b" for ys
    using assms by (subst takeWhile_append2) auto
  show ?thesis
  proof (cases "a = [] \<or> last a = CHR ''/''")
    case False
    then have "path_join a b = a @ ''/'' @ b"
      using nb by (auto simp: path_join_def)
    then show ?thesis
      using tw [of "rev a"] by (simp add: basename_def)
  next
    case True
    then have j: "path_join a b = a @ b"
      using nb by (auto simp: path_join_def)
    show ?thesis
    proof (cases "a = []")
      case True
      with j have "path_join a b = b" by simp
      then show ?thesis by (simp only: basename_def tb rev_rev_ident)
    next
      case False
      with True obtain a' where a': "a = a' @ [CHR ''/'']"
        by (metis append_butlast_last_id)
      have "path_join a b = a' @ ''/'' @ b"
        using j by (subst (asm) a') simp
      then show ?thesis
        using tw [of "rev a'"] by (simp add: basename_def)
    qed
  qed
qed

lemma path_join_longer:
  assumes "CHR ''/'' \<notin> set b" "a \<noteq> []"
  shows "path_join a b \<noteq> b"
proof -
  have "\<not> (b \<noteq> [] \<and> hd b = CHR ''/'')"
    using assms(1) by (cases b) auto
  then have "length (path_join a b) > length b"
    using assms(2) by (simp add: path_join_def)
  then show ?thesis by auto
qed

lemma set_load_sps:
  "set (load_sps env dimacs_dir tree) =
     {(dimacs, parse_dimacs env (path_join dirpath dimacs)) | dimacs dirpath subdirs files.
        (dirpath, subdirs, files) \<in> set (walk dimacs_dir tree) \<and> dimacs \<in> set files}"
  by (auto simp: load_sps_def)

lemma triples_sps:
  "(dimacs, sp, cuber, brancher) \<in> set (triples self) \<Longrightarrow> (dimacs, sp) \<in> set (sps self)"
  by (auto simp: triples_def)

lemma sps_Actor_init:
  "sps (Actor_init env server_cfg server_w tree gpu_id gpu_frac info)
     = load_sps env (ai_dimacs_dir info) tree"
  by (simp add: Actor_init_def Let_def)


lemma play_episode_report:
  assumes "play_episode env self dimacs sp cuber brancher = Inr self'"
  shows "case play_asat env (Z3Solver env sp (z3opts self)) cuber brancher (server_weights self) of
           None \<Rightarrow> pushes (trace self') = pushes (trace self)
         | Some (trail, core, estimate) \<Rightarrow>
             (\<exists>dps. pushes (trace self') = pushes (trace self) @
                [\<lparr>er_dimacs = dimacs, er_cuber = policy_name cuber,
                  er_brancher = policy_name brancher, er_estimate = estimate,
                  er_datapoints = dps\<rparr>])"
proof (cases "play_asat env (Z3Solver env sp (z3opts self)) cuber brancher (server_weights self)")
  case None
  from assms play_episode_None [OF None, of dimacs] None show ?thesis
    by (auto simp: pushes_append)
next
  case (Some r)
  obtain trail core estimate where r: "r = (trail, core, estimate)" by (cases r)
  from assms Some r obtain dps calls where
    m: "make_datapoints env self sp trail core = Inr (dps, calls)"
    and s: "self' = self\<lparr>neuroquery := server_weights self,
                        trace := trace self @ [GetWeights, SetWeights (server_weights self),
                                               FreshSolver sp, PlayAsat cuber brancher] @ calls @
                          [ProcessActorEpisode
                             \<lparr>er_dimacs = dimacs, er_cuber = policy_name cuber,
                              er_brancher = policy_name brancher, er_estimate = estimate,
                              er_datapoints = dps\<rparr>]\<rparr>"
    by (auto simp: play_episode_Some split: sum.splits)
  from pushes_calls [OF m] s Some r show ?thesis
    by (simp add: pushes_append)
qed

lemma episode_identifiers:
  assumes "play_episode env self dimacs sp cuber brancher = Inr self'"
  shows "\<exists>new. pushes (trace self') = pushes (trace self) @ new
           \<and> map er_dimacs new =
               map fst (filter (has_outcome env self) [(dimacs, sp, cuber, brancher)])"
  using play_episode_report [OF assms]
  by (auto simp: has_outcome_def split: option.splits)

lemma has_outcome_frame:
  assumes "play_episode env self dimacs sp cuber brancher = Inr self'"
  shows "has_outcome env self' = has_outcome env self"
  using play_episode_frame [OF assms] by (auto simp: has_outcome_def fun_eq_iff)

lemma round_identifiers:
  assumes "for_each (episode env) ts self = Inr self'"
  shows "\<exists>new. pushes (trace self') = pushes (trace self) @ new
           \<and> map er_dimacs new = map fst (filter (has_outcome env self) ts)"
  using assms
proof (induction ts arbitrary: self)
  case Nil
  then show ?case by simp
next
  case (Cons t ts)
  obtain dimacs sp cuber brancher where t: "t = (dimacs, sp, cuber, brancher)"
    by (cases t) auto
  from Cons.prems obtain self1 where
    s1: "play_episode env self dimacs sp cuber brancher = Inr self1"
    and r: "for_each (episode env) ts self1 = Inr self'"
    by (auto simp: t episode_play split: sum.splits)
  from episode_identifiers [OF s1] obtain new1 where
    n1: "pushes (trace self1) = pushes (trace self) @ new1"
    "map er_dimacs new1 = map fst (filter (has_outcome env self) [t])"
    unfolding t by blast
  from Cons.IH [OF r] obtain new2 where
    n2: "pushes (trace self') = pushes (trace self1) @ new2"
    "map er_dimacs new2 = map fst (filter (has_outcome env self1) ts)"
    by blast
  from n1 n2 has_outcome_frame [OF s1] show ?case
    by (intro exI [of _ "new1 @ new2"]) simp
qed

lemma for_each_episode_total:
  assumes "train self \<longrightarrow> (\<forall>n>0. \<exists>v. compute_v env (cfg self) n = Inr v)"
  shows "\<exists>self'. for_each (episode env) ts self = Inr self'"
  using assms
proof (induction ts arbitrary: self)
  case Nil
  then show ?case by simp
next
  case (Cons t ts)
  obtain dimacs sp cuber brancher where t: "t = (dimacs, sp, cuber, brancher)"
    by (cases t) auto
  from play_episode_total [OF Cons.prems] obtain self1 where
    s1: "play_episode env self dimacs sp cuber brancher = Inr self1"
    by blast
  from play_episode_frame [OF s1] Cons.prems
  have "train self1 \<longrightarrow> (\<forall>n>0. \<exists>v. compute_v env (cfg self1) n = Inr v)"
    by simp
  from Cons.IH [OF this] s1 show ?case
    by (simp add: t episode_play)
qed

text \<open>
  Claim C10. The identifier stored with a loaded instance is the name of its file in its
  directory, which is the base name of the path that is parsed and, below a directory with
  a name, differs from that path; two files of the same name in two directories of the
  corpus are both loaded under that name. An episode whose search returns an outcome
  pushes exactly one report, and the report holds the identifier the episode was given;
  a round of the loop gives every episode the identifier stored with its instance, so the
  reports of a round hold, in order, the stored identifiers of the combinations whose search
  returned an outcome. (File names hold no separator.)
\<close>

theorem instance_identifier_is_base_name:
  assumes "\<forall>(dirpath, subdirs, files) \<in> set (walk (ai_dimacs_dir info) tree).
             \<forall>f\<in>set files. CHR ''/'' \<notin> set f"
  shows "(\<forall>(dimacs, sp) \<in> set (sps (Actor_init env server_cfg server_w tree gpu_id gpu_frac info)).
            \<exists>dirpath subdirs files.
               (dirpath, subdirs, files) \<in> set (walk (ai_dimacs_dir info) tree)
             \<and> dimacs \<in> set files
             \<and> sp = parse_dimacs env (path_join dirpath dimacs)
             \<and> basename (path_join dirpath dimacs) = dimacs
             \<and> (dirpath \<noteq> [] \<longrightarrow> path_join dirpath dimacs \<noteq> dimacs))
       \<and> (\<forall>(d1, s1, f1) \<in> set (walk (ai_dimacs_dir info) tree).
           \<forall>(d2, s2, f2) \<in> set (walk (ai_dimacs_dir info) tree).
           \<forall>f \<in> set f1 \<inter> set f2.
              (f, parse_dimacs env (path_join d1 f))
                 \<in> set (sps (Actor_init env server_cfg server_w tree gpu_id gpu_frac info))
            \<and> (f, parse_dimacs env (path_join d2 f))
                 \<in> set (sps (Actor_init env server_cfg server_w tree gpu_id gpu_frac info)))
       \<and> (\<forall>self' trail core estimate.
             play_asat env (Z3Solver env sp (z3opts self)) cuber brancher (server_weights self)
               = Some (trail, core, estimate)
           \<and> play_episode env self dimacs sp cuber brancher = Inr self' \<longrightarrow>
             (\<exists>dps. pushes (trace self') = pushes (trace self) @
                [\<lparr>er_dimacs = dimacs, er_cuber = policy_name cuber,
                  er_brancher = policy_name brancher, er_estimate = estimate,
                  er_datapoints = dps\<rparr>]))
       \<and> (\<forall>(dimacs, sp, cuber, brancher) \<in> set (triples self). (dimacs, sp) \<in> set (sps self))
       \<and> (\<forall>self'. loop_body env self = Inr self' \<longrightarrow>
             (\<exists>new. pushes (trace self') = pushes (trace self) @ new
                  \<and> map er_dimacs new = map fst (filter (has_outcome env self) (triples self))))"
proof (intro conjI)
  show "\<forall>(dimacs, sp) \<in> set (sps (Actor_init env server_cfg server_w tree gpu_id gpu_frac info)).
            \<exists>dirpath subdirs files.
               (dirpath, subdirs, files) \<in> set (walk (ai_dimacs_dir info) tree)
             \<and> dimacs \<in> set files
             \<and> sp = parse_dimacs env (path_join dirpath dimacs)
             \<and> basename (path_join dirpath dimacs) = dimacs
             \<and> (dirpath \<noteq> [] \<longrightarrow> path_join dirpath dimacs \<noteq> dimacs)"
  proof (clarify)
    fix dimacs sp
    assume "(dimacs, sp) \<in> set (sps (Actor_init env server_cfg server_w tree gpu_id gpu_frac info))"
    then obtain dirpath subdirs files where
      w: "(dirpath, subdirs, files) \<in> set (walk (ai_dimacs_dir info) tree)" "dimacs \<in> set files"
      and sp: "sp = parse_dimacs env (path_join dirpath dimacs)"
      unfolding sps_Actor_init set_load_sps by blast
    from assms w have "CHR ''/'' \<notin> set dimacs" by blast
    with w sp basename_path_join path_join_longer
    show "\<exists>dirpath subdirs files.
               (dirpath, subdirs, files) \<in> set (walk (ai_dimacs_dir info) tree)
             \<and> dimacs \<in> set files
             \<and> sp = parse_dimacs env (path_join dirpath dimacs)
             \<and> basename (path_join dirpath dimacs) = dimacs
             \<and> (dirpath \<noteq> [] \<longrightarrow> path_join dirpath dimacs \<noteq> dimacs)"
      by blast
  qed
  show "\<forall>(d1, s1, f1) \<in> set (walk (ai_dimacs_dir info) tree).
           \<forall>(d2, s2, f2) \<in> set (walk (ai_dimacs_dir info) tree).
           \<forall>f \<in> set f1 \<inter> set f2.
              (f, parse_dimacs env (path_join d1 f))
                 \<in> set (sps (Actor_init env server_cfg server_w tree gpu_id gpu_frac info))
            \<and> (f, parse_dimacs env (path_join d2 f))
                 \<in> set (sps (Actor_init env server_cfg server_w tree gpu_id gpu_frac info))"
    unfolding sps_Actor_init set_load_sps by blast
  show "\<forall>self' trail core estimate.
             play_asat env (Z3Solver env sp (z3opts self)) cuber brancher (server_weights self)
               = Some (trail, core, estimate)
           \<and> play_episode env self dimacs sp cuber brancher = Inr self' \<longrightarrow>
             (\<exists>dps. pushes (trace self') = pushes (trace self) @
                [\<lparr>er_dimacs = dimacs, er_cuber = policy_name cuber,
                  er_brancher = policy_name brancher, er_estimate = estimate,
                  er_datapoints = dps\<rparr>])"
  proof (intro allI impI)
    fix self' trail core estimate
    assume h: "play_asat env (Z3Solver env sp (z3opts self)) cuber brancher (server_weights self)
               = Some (trail, core, estimate)
           \<and> play_episode env self dimacs sp cuber brancher = Inr self'"
    then have "play_episode env self dimacs sp cuber brancher = Inr self'" by simp
    from play_episode_report [OF this] h
    show "\<exists>dps. pushes (trace self') = pushes (trace self) @
                [\<lparr>er_dimacs = dimacs, er_cuber = policy_name cuber,
                  er_brancher = policy_name brancher, er_estimate = estimate,
                  er_datapoints = dps\<rparr>]"
      by simp
  qed
  show "\<forall>(dimacs, sp, cuber, brancher) \<in> set (triples self). (dimacs, sp) \<in> set (sps self)"
    by (auto simp: triples_def)
  show "\<forall>self'. loop_body env self = Inr self' \<longrightarrow>
             (\<exists>new. pushes (trace self') = pushes (trace self) @ new
                  \<and> map er_dimacs new = map fst (filter (has_outcome env self) (triples self)))"
    unfolding loop_body_triples using round_identifiers by blast
qed

lemma walk_example_tree:
  "walk ''d'' example_tree =
     [(''d'', [''a'', ''bb''], []), (''d/a'', [], [''x.cnf'']), (''d/bb'', [], [''x.cnf''])]"
  by (simp add: example_tree_def path_join_def)

lemma example_corpus_actor:
  "Actor_init (example_env 3) example_cfg (Suc 0) example_tree 0 1 (example_role 1 ''d'')
     = \<lparr>server_weights = Suc 0, cfg = example_cfg, neuroquery = 0,
        cubers = [\<lparr>policy_name = ''c''\<rparr>], branchers = [\<lparr>policy_name = ''b''\<rparr>],
        sps = [(''x.cnf'', (9, 0)), (''x.cnf'', (10, 0))], train = True,
        z3opts = \<lparr>max_conflicts = 10, sat_restart_max = 10\<rparr>, trace = []\<rparr>"
  unfolding Actor_init_def load_sps_def
  by (simp add: example_role_def walk_example_tree example_env_def path_join_def example_cfg_def)

lemma example_datapoints_any:
  assumes "train a" and "cfg a = example_cfg"
  shows "make_datapoints (example_env 3) a sp example_trail example_core
     = Inr ([\<lparr>n_vars = fst sp, n_clauses = snd sp, LC_idxs = 0, target_var = 0, target_v = 1 / 4\<rparr>,
             \<lparr>n_vars = fst sp, n_clauses = snd sp, LC_idxs = 1, target_var = 2, target_v = 1 / 2\<rparr>],
            [FreshSolver sp, ToTfQuery [], ToTfQuery [Lit (Var 0) True]])"
proof -
  have m: "min_trail example_trail example_core = [Lit (Var 0) True, Lit (Var 2) True]"
    by (simp add: min_trail_def example_trail_def example_core_def)
  show ?thesis
    unfolding make_datapoints_def fresh_solver_def m
    using assms
    by (simp add: example_env_sel compute_v_example power2_eq_square upt_rec [of _ 3])
qed

lemma example_episode_any:
  assumes "train a" and "cfg a = example_cfg" and "server_weights a = Suc w"
  shows "play_episode (example_env 3) a d sp c b
     = Inr (a\<lparr>neuroquery := Suc w,
              trace := trace a @
                [GetWeights, SetWeights (Suc w), FreshSolver sp, PlayAsat c b,
                 FreshSolver sp, ToTfQuery [], ToTfQuery [Lit (Var 0) True],
                 ProcessActorEpisode
                   \<lparr>er_dimacs = d, er_cuber = policy_name c, er_brancher = policy_name b,
                    er_estimate = 1,
                    er_datapoints =
                      [\<lparr>n_vars = fst sp, n_clauses = snd sp, LC_idxs = 0, target_var = 0,
                        target_v = 1 / 4\<rparr>,
                       \<lparr>n_vars = fst sp, n_clauses = snd sp, LC_idxs = 1, target_var = 2,
                        target_v = 1 / 2\<rparr>]\<rparr>]\<rparr>)"
proof -
  have s: "play_asat (example_env 3) (Z3Solver (example_env 3) sp (z3opts a)) c b (server_weights a)
      = Some (example_trail, example_core, 1)"
    using assms(3) by (simp add: example_search_succeeds)
  show ?thesis
    unfolding play_episode_Some [OF s] example_datapoints_any [OF assms(1,2)]
    using assms(3) by simp
qed

theorem instance_identifier_is_base_name_witness:
  "(''d/a'', [], [''x.cnf'']) \<in> set (walk (ai_dimacs_dir (example_role 1 ''d'')) example_tree)
   \<and> (''d/bb'', [], [''x.cnf'']) \<in> set (walk (ai_dimacs_dir (example_role 1 ''d'')) example_tree)
   \<and> sps (Actor_init (example_env 3) example_cfg (Suc 0) example_tree 0 1 (example_role 1 ''d''))
       = [(''x.cnf'', (9, 0)), (''x.cnf'', (10, 0))]
   \<and> parse_dimacs (example_env 3) (path_join ''d/a'' ''x.cnf'') = (9, 0)
   \<and> parse_dimacs (example_env 3) (path_join ''d/bb'' ''x.cnf'') = (10, 0)
   \<and> path_join ''d/a'' ''x.cnf'' = ''d/a/x.cnf''
   \<and> path_join ''d/bb'' ''x.cnf'' = ''d/bb/x.cnf''
   \<and> basename ''d/a/x.cnf'' = ''x.cnf''
   \<and> basename ''d/bb/x.cnf'' = ''x.cnf''
   \<and> map er_dimacs (pushes (trace (projr (loop_body (example_env 3)
        (Actor_init (example_env 3) example_cfg (Suc 0) example_tree 0 1 (example_role 1 ''d''))))))
       = [''x.cnf'', ''x.cnf'']
   \<and> map (\<lambda>r. n_vars (hd (er_datapoints r))) (pushes (trace (projr (loop_body (example_env 3)
        (Actor_init (example_env 3) example_cfg (Suc 0) example_tree 0 1 (example_role 1 ''d''))))))
       = [9, 10]"
proof -
  let ?A = "Actor_init (example_env 3) example_cfg (Suc 0) example_tree 0 1 (example_role 1 ''d'')"
  have d: "ai_dimacs_dir (example_role 1 ''d'') = ''d''"
    by (simp add: example_role_def)
  have h: "\<forall>(dirpath, subdirs, files) \<in> set (walk (ai_dimacs_dir (example_role 1 ''d'')) example_tree).
             \<forall>f\<in>set files. CHR ''/'' \<notin> set f"
    unfolding d walk_example_tree by simp
  have w1: "(''d/a'', [], [''x.cnf'']) \<in> set (walk (ai_dimacs_dir (example_role 1 ''d'')) example_tree)"
    and w2: "(''d/bb'', [], [''x.cnf'']) \<in> set (walk (ai_dimacs_dir (example_role 1 ''d'')) example_tree)"
    unfolding d walk_example_tree by simp_all
  have s: "sps ?A = [(''x.cnf'', (9, 0)), (''x.cnf'', (10, 0))]"
    by (simp add: example_corpus_actor)
  have p: "path_join ''d/a'' ''x.cnf'' = ''d/a/x.cnf''" "path_join ''d/bb'' ''x.cnf'' = ''d/bb/x.cnf''"
    "basename ''d/a/x.cnf'' = ''x.cnf''" "basename ''d/bb/x.cnf'' = ''x.cnf''"
    by (simp_all add: path_join_def basename_def)
  have q: "parse_dimacs (example_env 3) (path_join ''d/a'' ''x.cnf'') = (9, 0)"
    "parse_dimacs (example_env 3) (path_join ''d/bb'' ''x.cnf'') = (10, 0)"
    unfolding p by (simp_all add: example_env_def)
  have t: "triples ?A = [(''x.cnf'', (9, 0), \<lparr>policy_name = ''c''\<rparr>, \<lparr>policy_name = ''b''\<rparr>),
                         (''x.cnf'', (10, 0), \<lparr>policy_name = ''c''\<rparr>, \<lparr>policy_name = ''b''\<rparr>)]"
    by (simp add: triples_def example_corpus_actor)
  have o: "filter (has_outcome (example_env 3) ?A) (triples ?A) = triples ?A"
    unfolding t by (simp add: has_outcome_def example_corpus_actor example_search_succeeds)
  obtain self' where l: "loop_body (example_env 3) ?A = Inr self'"
    and v: "map (\<lambda>r. n_vars (hd (er_datapoints r))) (pushes (trace self')) = [9, 10]"
    unfolding loop_body_triples t
    by (simp add: episode_play example_episode_any example_corpus_actor)
  have "\<exists>new. pushes (trace self') = pushes (trace ?A) @ new
      \<and> map er_dimacs new = map fst (filter (has_outcome (example_env 3) ?A) (triples ?A))"
    using instance_identifier_is_base_name [OF h, where env = "example_env 3" and self = ?A,
      THEN conjunct2, THEN conjunct2, THEN conjunct2, THEN conjunct2, rule_format, OF l] .
  moreover have "map fst (filter (has_outcome (example_env 3) ?A) (triples ?A))
      = [''x.cnf'', ''x.cnf'']"
    by (simp only: o) (simp add: t)
  moreover have "pushes (trace ?A) = []"
    by (simp add: example_corpus_actor)
  ultimately have "map er_dimacs (pushes (trace self')) = [''x.cnf'', ''x.cnf'']"
    by auto
  with l v have
    "map er_dimacs (pushes (trace (projr (loop_body (example_env 3) ?A)))) = [''x.cnf'', ''x.cnf'']"
    "map (\<lambda>r. n_vars (hd (er_datapoints r))) (pushes (trace (projr (loop_body (example_env 3) ?A))))
       = [9, 10]"
    by simp_all
  with w1 w2 s p q show ?thesis
    by (simp only: simp_thms)
qed

end
